theory Spec2Isabelle
  imports Main
begin

section \<open>Data model (models.py)\<close>

text \<open>
  A \<open>datetime\<close> is a point on the wall clock, counted in microseconds; the clock value
  that \<open>datetime.now()\<close> returns is an argument of every function that reads it.
  A Python \<open>str\<close> is a \<open>string\<close>. Exceptions are values of \<open>error\<close>, and a
  function that can raise returns \<open>error + 'a\<close>.

  The \<open>status\<close> of a session is a member of the enumeration, as it is after the
  assignments of \<open>scan_async\<close>. A session object whose status is a plain string (one
  read back by \<open>get_scan_session\<close>) is not a value of this model: on it
  \<open>session.status.value\<close> raises in both \<open>save_scan_session\<close> methods.
\<close>

type_synonym datetime = int

datatype ScanStatus = PENDING | RUNNING | COMPLETED | FAILED

record ScanResult =
  ip :: string
  port :: int
  service :: "string option"
  banner :: "string option"
  is_new :: bool
  timestamp :: datetime
  scan_id :: "string option"

record ScanSession =
  session_id :: string
  status :: ScanStatus
  start_time :: datetime
  end_time :: "datetime option"
  targets :: "string list"
  results :: "ScanResult list"
  total_results :: int
  new_results :: int
  errors :: "string list"

datatype error =
    TimeoutError
  | ConnectionRefusedError
  | RuntimeError string
  | OSError string
  | OperationalError string
  | IntegrityError
  | UnicodeDecodeError string
  | TypeError string

text \<open>\<open>str(e)\<close>: the message of the exception, which the exception carries;
  \<open>asyncio.TimeoutError()\<close> and \<open>ConnectionRefusedError()\<close> are raised without one.\<close>

fun str_error :: "error \<Rightarrow> string" where
  "str_error TimeoutError = []"
| "str_error ConnectionRefusedError = []"
| "str_error (RuntimeError m) = m"
| "str_error (OSError m) = m"
| "str_error (OperationalError m) = m"
| "str_error IntegrityError = ''UNIQUE constraint failed''"
| "str_error (UnicodeDecodeError m) = m"
| "str_error (TypeError m) = m"

section \<open>History store (storage.py)\<close>

subsection \<open>SQLite backend\<close>

text \<open>
  The two tables of \<open>_init_db\<close>, each a list of rows in insertion order. Column values
  are kept at the type of the Python value that is written (the JSON and ISO-8601 text
  encodings of the columns are bijective and left out). \<open>scan_sessions.id\<close> is the
  primary key of the first table; the second has the primary key \<open>id\<close> and the
  constraint \<open>UNIQUE(ip, port)\<close>.
\<close>

record session_row =
  s_id :: string
  s_status :: ScanStatus
  s_start_time :: datetime
  s_end_time :: "datetime option"
  s_targets :: "string list"
  s_total_results :: int
  s_new_results :: int
  s_errors :: "string list option"

record result_row =
  r_id :: string
  r_scan_id :: string
  r_ip :: string
  r_port :: int
  r_service :: "string option"
  r_banner :: "string option"
  r_is_new :: int
  r_timestamp :: datetime

record sqlite_db =
  scan_sessions :: "session_row list"
  scan_results :: "result_row list"

text \<open>
  What the environment contributes to one call on the SQLite store: \<open>connect_error\<close>
  is the exception of \<open>sqlite3.connect\<close>, if it raises; \<open>fault_at = Some k\<close> says that
  the \<open>k\<close>-th statement of the call (\<open>execute\<close> or \<open>commit\<close>, counted from 0) raises an
  error that is not a constraint violation; \<open>uuid4\<close> is the sequence of identifiers that
  \<open>uuid.uuid4()\<close> returns during the call; \<open>tie_rank\<close> is the order in which the engine
  returns groups of equal count in the last query of \<open>get_statistics\<close> (the smaller rank
  first).
\<close>

record sqlite_env =
  connect_error :: "error option"
  fault_at :: "nat option"
  uuid4 :: "nat \<Rightarrow> string"
  tie_rank :: "int \<Rightarrow> int"

definition session_to_row :: "ScanSession \<Rightarrow> session_row" where
  "session_to_row session =
     \<lparr> s_id = session_id session,
       s_status = status session,
       s_start_time = start_time session,
       s_end_time = end_time session,
       s_targets = targets session,
       s_total_results = total_results session,
       s_new_results = new_results session,
       s_errors = (if errors session = [] then None else Some (errors session)) \<rparr>"

text \<open>\<open>INSERT OR REPLACE INTO scan_sessions\<close>: a row with the same primary key is
  deleted, the new row is added.\<close>

definition insert_or_replace_session :: "session_row \<Rightarrow> session_row list \<Rightarrow> session_row list" where
  "insert_or_replace_session row rows = filter (\<lambda>s. s_id s \<noteq> s_id row) rows @ [row]"

definition result_to_row :: "string \<Rightarrow> string \<Rightarrow> ScanResult \<Rightarrow> result_row" where
  "result_to_row result_id sid result =
     \<lparr> r_id = result_id,
       r_scan_id = sid,
       r_ip = ip result,
       r_port = port result,
       r_service = service result,
       r_banner = banner result,
       r_is_new = (if is_new result then 1 else 0),
       r_timestamp = timestamp result \<rparr>"

text \<open>\<open>INSERT INTO scan_results\<close>: \<open>sqlite3.IntegrityError\<close> when the primary key or
  the pair \<open>(ip, port)\<close> is already in the table.\<close>

definition insert_result :: "result_row \<Rightarrow> result_row list \<Rightarrow> error + result_row list" where
  "insert_result row rows =
     (if list_ex (\<lambda>r. r_id r = r_id row \<or> (r_ip r = r_ip row \<and> r_port r = r_port row)) rows
      then Inl IntegrityError
      else Inr (rows @ [row]))"

text \<open>
  The loop \<open>for result in session.results\<close> of \<open>SQLiteStorage.save_scan_session\<close>.
  \<open>k\<close> is the index of the next statement of the call. The value is \<open>Inl\<close> the prefix of
  results already visited (with the flags the loop has set on them) followed by the
  unvisited rest, when a statement raises; \<open>Inr\<close> the table and the results otherwise.
\<close>

fun sqlite_save_results ::
  "sqlite_env \<Rightarrow> string \<Rightarrow> nat \<Rightarrow> result_row list \<Rightarrow> ScanResult list
     \<Rightarrow> ScanResult list + (result_row list \<times> ScanResult list)" where
  "sqlite_save_results env sid k rows [] = Inr (rows, [])"
| "sqlite_save_results env sid k rows (result # rest) =
     (if fault_at env = Some k then Inl (result # rest)
      else
        (case insert_result (result_to_row (uuid4 env (k - 1)) sid result) rows of
           Inl e \<Rightarrow>
             (case sqlite_save_results env sid (Suc k) rows rest of
                Inl rs \<Rightarrow> Inl (result\<lparr>is_new := False\<rparr> # rs)
              | Inr (rows', rs) \<Rightarrow> Inr (rows', result\<lparr>is_new := False\<rparr> # rs))
         | Inr rows1 \<Rightarrow>
             (case sqlite_save_results env sid (Suc k) rows1 rest of
                Inl rs \<Rightarrow> Inl (result # rs)
              | Inr (rows', rs) \<Rightarrow> Inr (rows', result # rs))))"

text \<open>
  \<open>SQLiteStorage.save_scan_session\<close>. The value is the exception of \<open>_get_connection\<close>
  (raised before the \<open>try\<close>), or the returned flag, the database after the call and the
  session object after the call. Statement 0 is the upsert of the session row, statements
  \<open>1 .. n\<close> the inserts, statement \<open>n + 1\<close> the commit. Any exception inside the \<open>try\<close>
  rolls the transaction back and returns \<open>False\<close>; the flags already set on the result
  objects stay set.
\<close>

definition sqlite_save_scan_session ::
  "sqlite_env \<Rightarrow> sqlite_db \<Rightarrow> ScanSession \<Rightarrow> error + (bool \<times> sqlite_db \<times> ScanSession)" where
  "sqlite_save_scan_session env db session =
     (case connect_error env of
        Some e \<Rightarrow> Inl e
      | None \<Rightarrow>
          if fault_at env = Some 0 then Inr (False, db, session)
          else
            (case sqlite_save_results env (session_id session) 1 (scan_results db) (results session) of
               Inl rs \<Rightarrow> Inr (False, db, session\<lparr>results := rs\<rparr>)
             | Inr (rows', rs) \<Rightarrow>
                 if fault_at env = Some (Suc (length (results session)))
                 then Inr (False, db, session\<lparr>results := rs\<rparr>)
                 else Inr (True,
                       \<lparr> scan_sessions =
                           insert_or_replace_session (session_to_row session) (scan_sessions db),
                         scan_results = rows' \<rparr>,
                       session\<lparr>results := rs\<rparr>)))"

text \<open>\<open>SQLiteStorage.check_is_new_result\<close>: the \<open>except\<close> branch returns \<open>True\<close>.\<close>

definition sqlite_check_is_new_result ::
  "sqlite_env \<Rightarrow> sqlite_db \<Rightarrow> ScanResult \<Rightarrow> error + bool" where
  "sqlite_check_is_new_result env db result =
     (case connect_error env of
        Some e \<Rightarrow> Inl e
      | None \<Rightarrow>
          if fault_at env = Some 0 then Inr True
          else Inr (length (filter (\<lambda>r. r_ip r = ip result \<and> r_port r = port result)
                      (scan_results db)) = 0))"

text \<open>
  \<open>SQLiteStorage.get_statistics\<close>. The returned dictionary is a record; the empty
  dictionary of the \<open>except\<close> branch is \<open>None\<close>. \<open>popular_ports\<close> is a dictionary
  built from the rows of the last query in their order, so it is an association list.
  SQL leaves the order of groups with equal counts to the engine: the groups are ordered
  by descending count, and among equal counts by the \<open>tie_rank\<close> of the environment
  (two stable sorts, the second by count).
\<close>

record statistics =
  st_total_results :: nat
  st_unique_hosts :: nat
  st_total_scans :: nat
  st_popular_ports :: "(int \<times> nat) list"

definition group_by_port :: "int list \<Rightarrow> (int \<times> nat) list" where
  "group_by_port ports = map (\<lambda>p. (p, count_list ports p)) (sort (remdups ports))"

definition order_by_count_desc :: "(int \<times> nat) list \<Rightarrow> (int \<times> nat) list" where
  "order_by_count_desc items = sort_key (\<lambda>(p, c). - int c) items"

definition sqlite_popular_ports :: "(int \<Rightarrow> int) \<Rightarrow> int list \<Rightarrow> (int \<times> nat) list" where
  "sqlite_popular_ports rank ports =
     take 10 (order_by_count_desc (sort_key (\<lambda>(p, c). rank p) (group_by_port ports)))"

definition sqlite_get_statistics :: "sqlite_env \<Rightarrow> sqlite_db \<Rightarrow> error + statistics option" where
  "sqlite_get_statistics env db =
     (case connect_error env of
        Some e \<Rightarrow> Inl e
      | None \<Rightarrow>
          if fault_at env \<in> {Some 0, Some 1, Some 2, Some 3} then Inr None
          else Inr (Some
            \<lparr> st_total_results = length (scan_results db),
              st_unique_hosts = card (set (map r_ip (scan_results db))),
              st_total_scans = length (filter (\<lambda>s. s_status s = COMPLETED) (scan_sessions db)),
              st_popular_ports =
                sqlite_popular_ports (tie_rank env) (map r_port (scan_results db)) \<rparr>))"

subsection \<open>JSON backend\<close>

text \<open>
  The document of the file: a \<open>sessions\<close> list and a \<open>results\<close> list. The session
  dictionary of the JSON backend has no \<open>errors\<close> entry. \<open>read_error\<close> says that
  opening or decoding the file raises in \<open>_load_data\<close>, \<open>write_error\<close> that opening
  the file for writing raises in \<open>_save_data\<close> (the file is then left as it was).
\<close>

record session_dict =
  d_id :: string
  d_status :: ScanStatus
  d_start_time :: datetime
  d_end_time :: "datetime option"
  d_targets :: "string list"
  d_total_results :: int
  d_new_results :: int

record result_dict =
  j_ip :: string
  j_port :: int
  j_service :: "string option"
  j_banner :: "string option"
  j_is_new :: bool
  j_timestamp :: datetime
  j_scan_id :: string

record json_data =
  j_sessions :: "session_dict list"
  j_results :: "result_dict list"

record json_env =
  read_error :: bool
  write_error :: bool

definition load_data :: "json_env \<Rightarrow> json_data \<Rightarrow> json_data" where
  "load_data env file =
     (if read_error env then \<lparr> j_sessions = [], j_results = [] \<rparr> else file)"

definition save_data :: "json_env \<Rightarrow> json_data \<Rightarrow> json_data \<Rightarrow> bool \<times> json_data" where
  "save_data env file data = (if write_error env then (False, file) else (True, data))"

definition session_to_dict :: "ScanSession \<Rightarrow> session_dict" where
  "session_to_dict session =
     \<lparr> d_id = session_id session,
       d_status = status session,
       d_start_time = start_time session,
       d_end_time = end_time session,
       d_targets = targets session,
       d_total_results = total_results session,
       d_new_results = new_results session \<rparr>"

definition result_to_dict :: "string \<Rightarrow> ScanResult \<Rightarrow> result_dict" where
  "result_to_dict sid result =
     \<lparr> j_ip = ip result,
       j_port = port result,
       j_service = service result,
       j_banner = banner result,
       j_is_new = is_new result,
       j_timestamp = timestamp result,
       j_scan_id = sid \<rparr>"

text \<open>The loop \<open>for result in session.results\<close> of \<open>JSONStorage.save_scan_session\<close>:
  a linear scan for the pair, then the append. The result object is only read.\<close>

fun json_save_results :: "string \<Rightarrow> result_dict list \<Rightarrow> ScanResult list \<Rightarrow> result_dict list" where
  "json_save_results sid rows [] = rows"
| "json_save_results sid rows (result # rest) =
     (let exists = list_ex (\<lambda>r. j_ip r = ip result \<and> j_port r = port result) rows
      in json_save_results sid (if \<not> exists then rows @ [result_to_dict sid result] else rows) rest)"

text \<open>\<open>JSONStorage.save_scan_session\<close>: the returned flag, the file after the call and
  the session object after the call.\<close>

definition json_save_scan_session ::
  "json_env \<Rightarrow> json_data \<Rightarrow> ScanSession \<Rightarrow> bool \<times> json_data \<times> ScanSession" where
  "json_save_scan_session env file session =
     (let data = load_data env file;
          sessions1 = filter (\<lambda>s. d_id s \<noteq> session_id session) (j_sessions data)
                        @ [session_to_dict session];
          results1 = json_save_results (session_id session) (j_results data) (results session);
          (ok, file') = save_data env file \<lparr> j_sessions = sessions1, j_results = results1 \<rparr>
      in (ok, file', session))"

text \<open>\<open>JSONStorage.check_is_new_result\<close>.\<close>

fun json_scan_for_pair :: "result_dict list \<Rightarrow> ScanResult \<Rightarrow> bool" where
  "json_scan_for_pair [] result = True"
| "json_scan_for_pair (r # rs) result =
     (if j_ip r = ip result \<and> j_port r = port result then False
      else json_scan_for_pair rs result)"

definition json_check_is_new_result :: "json_env \<Rightarrow> json_data \<Rightarrow> ScanResult \<Rightarrow> bool" where
  "json_check_is_new_result env file result =
     json_scan_for_pair (j_results (load_data env file)) result"

text \<open>\<open>JSONStorage.get_statistics\<close>. \<open>port_counts\<close> is a dictionary filled in the order
  of first occurrence; \<open>sorted(..., reverse=True)\<close> is stable.\<close>

fun bump_port :: "(int \<times> nat) list \<Rightarrow> int \<Rightarrow> (int \<times> nat) list" where
  "bump_port [] p = [(p, 1)]"
| "bump_port ((q, c) # rest) p =
     (if q = p then (q, c + 1) # rest else (q, c) # bump_port rest p)"

definition json_get_statistics :: "json_env \<Rightarrow> json_data \<Rightarrow> statistics" where
  "json_get_statistics env file =
     (let data = load_data env file;
          port_counts = foldl bump_port [] (map j_port (j_results data))
      in \<lparr> st_total_results = length (j_results data),
           st_unique_hosts = card (set (map j_ip (j_results data))),
           st_total_scans = length (j_sessions data),
           st_popular_ports = take 10 (order_by_count_desc port_counts) \<rparr>)"

section \<open>Text utilities and message formatting (utils.py)\<close>

text \<open>
  A \<open>string\<close> holds one \<open>char\<close> per code point and so covers the text whose code
  points are below 256 (addresses, service names, banners). The notification message
  contains Cyrillic text and emoji: it is a \<open>ustr\<close>, a list of code points, and \<open>u\<close>
  embeds a \<open>string\<close> into it. \<open>u_isspace\<close> is \<open>str.isspace\<close> on one code point;
  \<open>strip()\<close> removes such code points from both ends.
\<close>

type_synonym ustr = "nat list"

definition u :: "string \<Rightarrow> ustr" where
  "u s = map of_char s"

definition u_isspace :: "nat \<Rightarrow> bool" where
  "u_isspace c \<longleftrightarrow>
     (0x09 \<le> c \<and> c \<le> 0x0D) \<or> (0x1C \<le> c \<and> c \<le> 0x20) \<or> c = 0x85 \<or> c = 0xA0
     \<or> c = 0x1680 \<or> (0x2000 \<le> c \<and> c \<le> 0x200A) \<or> c = 0x2028 \<or> c = 0x2029
     \<or> c = 0x202F \<or> c = 0x205F \<or> c = 0x3000"

definition u_strip :: "ustr \<Rightarrow> ustr" where
  "u_strip s = rev (dropWhile u_isspace (rev (dropWhile u_isspace s)))"

definition py_isspace :: "char \<Rightarrow> bool" where
  "py_isspace c = u_isspace (of_char c)"

definition py_strip :: "string \<Rightarrow> string" where
  "py_strip s = rev (dropWhile py_isspace (rev (dropWhile py_isspace s)))"

text \<open>\<open>str(n)\<close> for an \<open>int\<close>: decimal digits, with a minus sign below zero.\<close>

definition digit_char :: "nat \<Rightarrow> char" where
  "digit_char d = ''0123456789'' ! d"

fun str_nat :: "nat \<Rightarrow> string" where
  "str_nat n =
     (if n < 10 then [digit_char n] else str_nat (n div 10) @ [digit_char (n mod 10)])"

declare str_nat.simps [simp del]

definition str_int :: "int \<Rightarrow> string" where
  "str_int i = (if i < 0 then CHR ''-'' # str_nat (nat (- i)) else str_nat (nat i))"

text \<open>\<open>sep.join(xs)\<close>.\<close>

fun join :: "string \<Rightarrow> string list \<Rightarrow> string" where
  "join sep [] = []"
| "join sep [x] = x"
| "join sep (x # y # ys) = x @ sep @ join sep (y # ys)"

text \<open>
  \<open>format_notification_message\<close>. An entry of \<open>new_results\<close> (here \<open>entries\<close>) is a dictionary with the
  keys \<open>ip\<close>, \<open>port\<close> and \<open>service\<close>; \<open>summary\<close> may lack either of its keys
  (\<open>None\<close>), and \<open>.get\<close> then supplies \<open>'N/A'\<close> and \<open>0\<close>. The time stamp printed by
  \<open>strftime\<close> is an argument. The literals are those of the source, as code points.
\<close>

record new_result =
  nr_ip :: string
  nr_port :: int
  nr_service :: string

record summary =
  sm_duration :: "int option"
  sm_total_ports :: "int option"

definition message_header :: "string \<Rightarrow> nat \<Rightarrow> summary \<Rightarrow> ustr" where
  "message_header stamp n sm =
     [0xA, 0x1F50D] @ u '' *'' @ [0x420, 0x435, 0x437, 0x443, 0x43B, 0x44C, 0x442, 0x430, 0x442, 0x44B]
     @ u '' '' @ [0x441, 0x43A, 0x430, 0x43D, 0x438, 0x440, 0x43E, 0x432, 0x430, 0x43D, 0x438, 0x44F]
     @ u '' '' @ [0x43F, 0x43E, 0x440, 0x442, 0x43E, 0x432] @ u ''*''
     @ [0xA, 0xA, 0x23F0] @ u '' '' @ [0x412, 0x440, 0x435, 0x43C, 0x44F] @ u '': ''
     @ u stamp
     @ [0xA, 0x1F4CA] @ u '' '' @ [0x41D, 0x430, 0x439, 0x434, 0x435, 0x43D, 0x43E]
     @ u '' '' @ [0x43D, 0x43E, 0x432, 0x44B, 0x445] @ u '': ''
     @ u (str_nat n)
     @ [0xA, 0x23F1, 0xFE0F] @ u '' ''
     @ [0x414, 0x43B, 0x438, 0x442, 0x435, 0x43B, 0x44C, 0x43D, 0x43E, 0x441, 0x442, 0x44C] @ u '': ''
     @ u (case sm_duration sm of None \<Rightarrow> ''N/A'' | Some d \<Rightarrow> str_int d)
     @ [0x441, 0xA, 0x1F4C8] @ u '' '' @ [0x412, 0x441, 0x435, 0x433, 0x43E]
     @ u '' '' @ [0x43D, 0x430, 0x439, 0x434, 0x435, 0x43D, 0x43E]
     @ u '' '' @ [0x43F, 0x43E, 0x440, 0x442, 0x43E, 0x432] @ u '': ''
     @ u (case sm_total_ports sm of None \<Rightarrow> str_int 0 | Some t \<Rightarrow> str_int t)
     @ [0xA, 0xA] @ u ''*'' @ [0x41D, 0x43E, 0x432, 0x44B, 0x435]
     @ u '' '' @ [0x43E, 0x442, 0x43A, 0x440, 0x44B, 0x442, 0x44B, 0x435]
     @ u '' '' @ [0x43F, 0x43E, 0x440, 0x442, 0x44B] @ u '':*'' @ [0xA]"

definition bullet_line :: "new_result \<Rightarrow> ustr" where
  "bullet_line r =
     [0xA, 0x2022] @ u '' '' @ u (nr_ip r) @ u '':'' @ u (str_int (nr_port r))
     @ u '' - '' @ u (nr_service r)"

definition more_line :: "nat \<Rightarrow> ustr" where
  "more_line k =
     [0xA, 0x2022] @ u '' ... '' @ [0x438] @ u '' '' @ [0x435, 0x449, 0x451] @ u '' ''
     @ u (str_nat k)"

definition message_footer :: ustr where
  "message_footer =
     [0xA, 0xA, 0x2705] @ u '' ''
     @ [0x421, 0x43A, 0x430, 0x43D, 0x438, 0x440, 0x43E, 0x432, 0x430, 0x43D, 0x438, 0x435]
     @ u '' '' @ [0x437, 0x430, 0x432, 0x435, 0x440, 0x448, 0x435, 0x43D, 0x43E]
     @ u '' '' @ [0x443, 0x441, 0x43F, 0x435, 0x448, 0x43D, 0x43E]"

text \<open>The loop \<open>for result in new_results[:10]: message += ...\<close>.\<close>

fun append_bullets :: "ustr \<Rightarrow> new_result list \<Rightarrow> ustr" where
  "append_bullets message [] = message"
| "append_bullets message (result # rest) = append_bullets (message @ bullet_line result) rest"

definition format_notification_message :: "string \<Rightarrow> new_result list \<Rightarrow> summary \<Rightarrow> ustr" where
  "format_notification_message stamp entries sm =
     (let message0 = message_header stamp (length entries) sm;
          message1 = append_bullets message0 (take 10 entries);
          message2 = (if length entries > 10
                      then message1 @ more_line (length entries - 10)
                      else message1);
          message3 = message2 @ message_footer
      in u_strip message3)"

text \<open>
  Reading a text back: \<open>split_lines\<close> is \<open>str.split('\n')\<close>, the lines of a text;
  a bullet line is a line that starts with the bullet \<open>U+2022\<close> and a blank;
  \<open>decimal_value\<close> is the number that a string of decimal digits denotes.
\<close>

fun split_acc :: "ustr \<Rightarrow> ustr \<Rightarrow> ustr list" where
  "split_acc cur [] = [cur]"
| "split_acc cur (c # cs) =
     (if c = 0xA then cur # split_acc [] cs else split_acc (cur @ [c]) cs)"

definition split_lines :: "ustr \<Rightarrow> ustr list" where
  "split_lines s = split_acc [] s"

fun is_bullet_line :: "ustr \<Rightarrow> bool" where
  "is_bullet_line (a # b # rest) = (a = 0x2022 \<and> b = 0x20)"
| "is_bullet_line other = False"

definition decimal_value :: "string \<Rightarrow> nat" where
  "decimal_value s = foldl (\<lambda>acc c. 10 * acc + (of_char c - 48)) 0 s"

text \<open>\<open>COMMON_SERVICES\<close> and \<open>get_service_name\<close>. The keyword loop over the banner is
  the test \<open>keyword in banner_lower\<close> for twelve keywords in their order.\<close>

definition COMMON_SERVICES :: "(int \<times> string) list" where
  "COMMON_SERVICES =
     [(21, ''FTP''), (22, ''SSH''), (23, ''Telnet''), (25, ''SMTP''), (53, ''DNS''),
      (80, ''HTTP''), (110, ''POP3''), (143, ''IMAP''), (443, ''HTTPS''), (465, ''SMTPS''),
      (587, ''SMTP''), (993, ''IMAPS''), (995, ''POP3S''), (3306, ''MySQL''), (3389, ''RDP''),
      (5432, ''PostgreSQL''), (5900, ''VNC''), (6379, ''Redis''), (8080, ''HTTP-Proxy''),
      (8443, ''HTTPS-Alt''), (27017, ''MongoDB''), (50070, ''Hadoop'')]"

text \<open>\<open>str.lower()\<close> on code points below 256: the ASCII capitals and the capitals
  \<open>0xC0 .. 0xDE\<close> of Latin-1 except the multiplication sign \<open>0xD7\<close> move up by 32.\<close>

definition py_lower_char :: "char \<Rightarrow> char" where
  "py_lower_char c =
     (let n = (of_char c :: nat)
      in if (0x41 \<le> n \<and> n \<le> 0x5A) \<or> (0xC0 \<le> n \<and> n \<le> 0xDE \<and> n \<noteq> 0xD7)
         then char_of (n + 32) else c)"

fun is_substring :: "string \<Rightarrow> string \<Rightarrow> bool" where
  "is_substring k [] = (k = [])"
| "is_substring k (c # cs) = (take (length k) (c # cs) = k \<or> is_substring k cs)"

definition service_keywords :: "(string \<times> string) list" where
  "service_keywords =
     [(''apache'', ''Apache''), (''nginx'', ''Nginx''), (''microsoft-iis'', ''IIS''),
      (''openssh'', ''OpenSSH''), (''openssl'', ''OpenSSL''), (''mysql'', ''MySQL''),
      (''postgresql'', ''PostgreSQL''), (''mongodb'', ''MongoDB''), (''redis'', ''Redis''),
      (''elasticsearch'', ''Elasticsearch''), (''docker'', ''Docker''), (''jenkins'', ''Jenkins'')]"

definition get_service_name :: "int \<Rightarrow> string \<Rightarrow> string" where
  "get_service_name p bnr =
     (let banner_lower = map py_lower_char bnr
      in case find (\<lambda>(keyword, name). is_substring keyword banner_lower) service_keywords of
           Some (keyword, name) \<Rightarrow> name
         | None \<Rightarrow> (case map_of COMMON_SERVICES p of Some name \<Rightarrow> name | None \<Rightarrow> ''Unknown''))"

section \<open>Notification fan-out (notify.py)\<close>

text \<open>
  A \<open>BaseNotifier\<close> object is the record of its two methods. \<open>send\<close> is a coroutine:
  awaited under \<open>asyncio.gather(..., return_exceptions=True)\<close> it either returns a
  flag or raises, and the exception is delivered as its result. The three classes of
  the module are the functions that build such a record from the constructor's arguments
  and from what the network does with the message: the HTTP status or the client error
  of a POST, the error of the SMTP dialogue if there is one.
\<close>

datatype send_outcome = Returns bool | Raises error

datatype http_outcome = Status nat | ClientError error

record BaseNotifier =
  class_name :: string
  is_enabled :: bool
  send :: "ustr \<Rightarrow> send_outcome"

text \<open>Truth value of an optional string or number, as \<open>bool(...)\<close> and \<open>all([...])\<close>
  take it.\<close>

definition truthy :: "string option \<Rightarrow> bool" where
  "truthy x = (case x of None \<Rightarrow> False | Some s \<Rightarrow> s \<noteq> [])"

definition truthy_int :: "int option \<Rightarrow> bool" where
  "truthy_int x = (case x of None \<Rightarrow> False | Some n \<Rightarrow> n \<noteq> 0)"

definition TelegramNotifier ::
  "(ustr \<Rightarrow> http_outcome) \<Rightarrow> string option \<Rightarrow> string option \<Rightarrow> BaseNotifier" where
  "TelegramNotifier post token chat_id =
     (let enabled = (truthy token \<and> truthy chat_id)
      in \<lparr> class_name = ''TelegramNotifier'',
           is_enabled = enabled,
           send = (\<lambda>message.
             if \<not> enabled then Returns False
             else (case post message of
                     Status code \<Rightarrow> if code = 200 then Returns True else Returns False
                   | ClientError e \<Rightarrow> Returns False)) \<rparr>)"

definition EmailNotifier ::
  "(ustr \<Rightarrow> error option) \<Rightarrow> string option \<Rightarrow> int option \<Rightarrow> string option
     \<Rightarrow> string option \<Rightarrow> string option \<Rightarrow> BaseNotifier" where
  "EmailNotifier smtp smtp_server smtp_port sender_email sender_password recipient =
     (let enabled = (truthy smtp_server \<and> truthy_int smtp_port \<and> truthy sender_email
                      \<and> truthy sender_password \<and> truthy recipient)
      in \<lparr> class_name = ''EmailNotifier'',
           is_enabled = enabled,
           send = (\<lambda>message.
             if \<not> enabled then Returns False
             else (case smtp message of
                     None \<Rightarrow> Returns True
                   | Some e \<Rightarrow> Returns False)) \<rparr>)"

definition DiscordNotifier ::
  "(ustr \<Rightarrow> http_outcome) \<Rightarrow> string option \<Rightarrow> BaseNotifier" where
  "DiscordNotifier post webhook_url =
     (let enabled = truthy webhook_url
      in \<lparr> class_name = ''DiscordNotifier'',
           is_enabled = enabled,
           send = (\<lambda>message.
             if \<not> enabled then Returns False
             else (case post message of
                     Status code \<Rightarrow> if code \<in> {200, 204} then Returns True else Returns False
                   | ClientError e \<Rightarrow> Returns False)) \<rparr>)"

record NotificationManager =
  notifiers :: "BaseNotifier list"

definition new_manager :: NotificationManager where
  "new_manager = \<lparr> notifiers = [] \<rparr>"

definition add_notifier :: "NotificationManager \<Rightarrow> BaseNotifier \<Rightarrow> NotificationManager" where
  "add_notifier manager notifier =
     (if is_enabled notifier
      then manager\<lparr> notifiers := notifiers manager @ [notifier] \<rparr>
      else manager)"

text \<open>
  \<open>notify_all\<close>: the returned count, and the log of the \<open>send\<close> calls it issues, each
  with the class of the receiver and the message.
\<close>

definition notify_all :: "NotificationManager \<Rightarrow> ustr \<Rightarrow> nat \<times> (string \<times> ustr) list" where
  "notify_all manager message =
     (case notifiers manager of
        [] \<Rightarrow> (0, [])
      | first # others \<Rightarrow>
          (let outcomes = map (\<lambda>notifier. send notifier message) (notifiers manager);
               success_count = length (filter (\<lambda>r. r = Returns True) outcomes)
           in (success_count, map (\<lambda>notifier. (class_name notifier, message)) (notifiers manager))))"

text \<open>The \<open>notifications\<close> section of the configuration, as \<open>model_dump()\<close> hands it
  to \<open>create_notification_manager\<close>, and the network the senders talk to.\<close>

record notifications_config =
  telegram_enabled :: bool
  telegram_token :: "string option"
  telegram_chat_id :: "string option"
  email_enabled :: bool
  email_smtp_server :: "string option"
  email_smtp_port :: "int option"
  email_sender_email :: "string option"
  email_sender_password :: "string option"
  email_recipient :: "string option"
  discord_enabled :: bool
  discord_webhook_url :: "string option"

record network =
  telegram_post :: "ustr \<Rightarrow> http_outcome"
  smtp_dialogue :: "ustr \<Rightarrow> error option"
  discord_post :: "ustr \<Rightarrow> http_outcome"

definition create_notification_manager :: "network \<Rightarrow> notifications_config \<Rightarrow> NotificationManager" where
  "create_notification_manager net config =
     (let manager0 = new_manager;
          manager1 = (if telegram_enabled config
                      then add_notifier manager0
                             (TelegramNotifier (telegram_post net)
                                (telegram_token config) (telegram_chat_id config))
                      else manager0);
          manager2 = (if email_enabled config
                      then add_notifier manager1
                             (EmailNotifier (smtp_dialogue net) (email_smtp_server config)
                                (email_smtp_port config) (email_sender_email config)
                                (email_sender_password config) (email_recipient config))
                      else manager1);
          manager3 = (if discord_enabled config
                      then add_notifier manager2
                             (DiscordNotifier (discord_post net) (discord_webhook_url config))
                      else manager2)
      in manager3)"

section \<open>Banner classifier (banner_analyzer.py)\<close>

text \<open>
  The regular expressions of \<open>PATTERNS\<close> use literal text, character sets, \<open>+\<close> on a
  character set, concatenation, \<open>?\<close> and one capturing group; \<open>(?:...)\<close> only groups.
  All are matched with \<open>re.IGNORECASE\<close>: a letter of the pattern matches both of its
  cases. \<open>\d\<close> is a decimal digit.

  \<open>rx_match r s g\<close> lists the ways in which \<open>r\<close> matches a prefix of \<open>s\<close>, in the order
  in which the backtracking matcher of \<open>re\<close> tries them (a quantifier is greedy: the
  longer alternative first). Each way is the rest of the input and the text of group 1,
  \<open>None\<close> while the group has not taken part. \<open>re_search\<close> is \<open>re.search\<close>: the first
  way at the leftmost start position; its value is \<open>None\<close> for no match and otherwise
  \<open>match.group(1)\<close>.
\<close>

datatype item = Ch char | Digit

datatype rx =
    Lit string
  | Set "item list"
  | Plus "item list"
  | Seq rx rx
  | Opt rx
  | Group rx

definition is_digit :: "char \<Rightarrow> bool" where
  "is_digit c = (let n = (of_char c :: nat) in 0x30 \<le> n \<and> n \<le> 0x39)"

text \<open>Under \<open>re.IGNORECASE\<close> two characters are the same when their lower-case code
  points are; below 256 only the ASCII capitals have a lower-case partner among the
  characters of the patterns.\<close>

definition lower_code :: "char \<Rightarrow> nat" where
  "lower_code c =
     (let n = (of_char c :: nat) in if 0x41 \<le> n \<and> n \<le> 0x5A then n + 32 else n)"

definition eq_ignorecase :: "char \<Rightarrow> char \<Rightarrow> bool" where
  "eq_ignorecase a c = (lower_code a = lower_code c)"

fun item_match :: "item \<Rightarrow> char \<Rightarrow> bool" where
  "item_match (Ch a) c = eq_ignorecase a c"
| "item_match Digit c = is_digit c"

text \<open>A literal against the start of the input: the rest of the input after it.\<close>

fun lit_match :: "string \<Rightarrow> string \<Rightarrow> string option" where
  "lit_match [] s = Some s"
| "lit_match (a # l) [] = None"
| "lit_match (a # l) (c # s) = (if eq_ignorecase a c then lit_match l s else None)"

definition in_set :: "item list \<Rightarrow> char \<Rightarrow> bool" where
  "in_set items c = list_ex (\<lambda>i. item_match i c) items"

fun rx_match :: "rx \<Rightarrow> string \<Rightarrow> string option \<Rightarrow> (string \<times> string option) list" where
  "rx_match (Lit l) s g = (case lit_match l s of None \<Rightarrow> [] | Some s' \<Rightarrow> [(s', g)])"
| "rx_match (Set items) s g =
     (case s of [] \<Rightarrow> [] | c # cs \<Rightarrow> if in_set items c then [(cs, g)] else [])"
| "rx_match (Plus items) s g =
     map (\<lambda>n. (drop n s, g)) (rev [1 ..< Suc (length (takeWhile (in_set items) s))])"
| "rx_match (Seq a b) s g =
     concat (map (\<lambda>(s', g'). rx_match b s' g') (rx_match a s g))"
| "rx_match (Opt a) s g = rx_match a s g @ [(s, g)]"
| "rx_match (Group a) s g =
     map (\<lambda>(s', g'). (s', Some (take (length s - length s') s))) (rx_match a s g)"

fun re_search :: "rx \<Rightarrow> string \<Rightarrow> string option option" where
  "re_search r [] = (case rx_match r [] None of [] \<Rightarrow> None | (s', g) # ways \<Rightarrow> Some g)"
| "re_search r (c # cs) =
     (case rx_match r (c # cs) None of [] \<Rightarrow> re_search r cs | (s', g) # ways \<Rightarrow> Some g)"

text \<open>\<open>match.groups()\<close> is not empty when the pattern has a group.\<close>

fun has_group :: "rx \<Rightarrow> bool" where
  "has_group (Lit l) = False"
| "has_group (Set items) = False"
| "has_group (Plus items) = False"
| "has_group (Seq a b) = (has_group a \<or> has_group b)"
| "has_group (Opt a) = has_group a"
| "has_group (Group a) = True"

definition digits :: rx where
  "digits = Plus [Digit]"

definition sep :: rx where
  "sep = Set [Ch CHR ''_'', Ch CHR ''-'']"

text \<open>\<open>(?:/(\d+\.\d+\.\d+))?\<close>, \<open>[_\-]?([\d\.]+)?\<close> and \<open>[_\-]?([\d\.p]+)?\<close>.\<close>

definition slash_version3 :: rx where
  "slash_version3 =
     Opt (Seq (Lit ''/'') (Group (Seq digits (Seq (Lit ''.'') (Seq digits (Seq (Lit ''.'') digits))))))"

definition sep_dotted :: rx where
  "sep_dotted = Seq (Opt sep) (Opt (Group (Plus [Digit, Ch CHR ''.''])))"

definition sep_dotted_p :: rx where
  "sep_dotted_p = Seq (Opt sep) (Opt (Group (Plus [Digit, Ch CHR ''.'', Ch CHR ''p''])))"

text \<open>The table, in the order of its declaration: pattern, service name, service type.\<close>

definition PATTERNS :: "(rx \<times> string \<times> string) list" where
  "PATTERNS =
     [(Seq (Lit ''Apache'') slash_version3, ''Apache'', ''web_server''),
      (Seq (Lit ''nginx'') slash_version3, ''Nginx'', ''web_server''),
      (Seq (Lit ''Microsoft-IIS/'') (Group (Seq digits (Seq (Lit ''.'') digits))),
         ''IIS'', ''web_server''),
      (Seq (Lit ''OpenSSH'') sep_dotted_p, ''OpenSSH'', ''ssh''),
      (Lit ''OpenSSL'', ''OpenSSL'', ''crypto''),
      (Seq (Lit ''MySQL'') (Seq sep (Seq (Lit ''Server'') sep_dotted)), ''MySQL'', ''database''),
      (Seq (Lit ''PostgreSQL'') sep_dotted, ''PostgreSQL'', ''database''),
      (Lit ''MongoDB'', ''MongoDB'', ''database''),
      (Seq (Lit ''Redis'') sep_dotted, ''Redis'', ''cache''),
      (Lit ''Elasticsearch'', ''Elasticsearch'', ''search''),
      (Lit ''Docker'', ''Docker'', ''container''),
      (Seq (Lit ''FTP'') (Seq sep (Lit ''Server'')), ''FTP Server'', ''ftp''),
      (Seq (Lit ''Telnet'') (Seq sep (Lit ''Server'')), ''Telnet'', ''telnet''),
      (Lit ''SMTP'', ''SMTP'', ''mail''),
      (Lit ''POP3'', ''POP3'', ''mail''),
      (Lit ''IMAP'', ''IMAP'', ''mail''),
      (Lit ''Jenkins'', ''Jenkins'', ''ci_cd''),
      (Seq (Lit ''Tomcat'') sep_dotted, ''Tomcat'', ''web_server''),
      (Lit ''Joomla'', ''Joomla'', ''cms''),
      (Lit ''WordPress'', ''WordPress'', ''cms''),
      (Lit ''Drupal'', ''Drupal'', ''cms''),
      (Lit ''Nextcloud'', ''Nextcloud'', ''file_sync''),
      (Lit ''OwnCloud'', ''OwnCloud'', ''file_sync''),
      (Lit ''Grafana'', ''Grafana'', ''monitoring''),
      (Lit ''Prometheus'', ''Prometheus'', ''monitoring''),
      (Lit ''Consul'', ''Consul'', ''service_discovery''),
      (Lit ''etcd'', ''etcd'', ''key_value''),
      (Lit ''RabbitMQ'', ''RabbitMQ'', ''message_queue''),
      (Lit ''Kafka'', ''Kafka'', ''message_queue''),
      (Lit ''Cassandra'', ''Cassandra'', ''database''),
      (Lit ''CouchDB'', ''CouchDB'', ''database''),
      (Lit ''InfluxDB'', ''InfluxDB'', ''database''),
      (Lit ''Solr'', ''Solr'', ''search''),
      (Lit ''Zookeeper'', ''Zookeeper'', ''orchestration''),
      (Lit ''Memcached'', ''Memcached'', ''cache''),
      (Lit ''haproxy'', ''HAProxy'', ''load_balancer''),
      (Lit ''nginx'', ''Nginx'', ''reverse_proxy''),
      (Seq (Lit ''Apache'') (Seq sep (Lit ''HTTP'')), ''Apache'', ''web_server''),
      (Lit ''Jetty'', ''Jetty'', ''web_server''),
      (Lit ''Kestrel'', ''Kestrel'', ''web_server''),
      (Lit ''Caddy'', ''Caddy'', ''web_server''),
      (Lit ''Hyper'', ''Hyper'', ''web_server'')]"

text \<open>What \<open>analyze\<close> returns from inside the loop once \<open>re.search\<close> has matched.\<close>

definition matched_name :: "rx \<Rightarrow> string \<Rightarrow> string option \<Rightarrow> string" where
  "matched_name r service_name g =
     (let version = (if has_group r then g else None)
      in case version of
           Some v \<Rightarrow> if v \<noteq> [] then service_name @ '' '' @ v else service_name
         | None \<Rightarrow> service_name)"

text \<open>The loop \<open>for pattern, (service_name, service_type) in self.PATTERNS.items()\<close>;
  \<open>None\<close> when it ends without a \<open>return\<close>.\<close>

fun analyze_patterns :: "(rx \<times> string \<times> string) list \<Rightarrow> string \<Rightarrow> string option" where
  "analyze_patterns [] bnr = None"
| "analyze_patterns ((r, service_name, service_type) # rest) bnr =
     (case re_search r bnr of
        Some g \<Rightarrow> Some (matched_name r service_name g)
      | None \<Rightarrow> analyze_patterns rest bnr)"

text \<open>\<open>banner_normalized.split('\n')[0]\<close>.\<close>

definition first_line :: "string \<Rightarrow> string" where
  "first_line s = takeWhile (\<lambda>c. c \<noteq> CHR 0x0A) s"

definition analyze :: "string \<Rightarrow> string" where
  "analyze bnr =
     (if bnr = [] then ''Unknown''
      else
        (let banner_normalized = py_strip bnr
         in case analyze_patterns PATTERNS banner_normalized of
              Some name \<Rightarrow> name
            | None \<Rightarrow>
                (let line = first_line banner_normalized
                 in if line \<noteq> [] then take 50 line else ''Unknown'')))"

section \<open>Scanner (scanner.py)\<close>

text \<open>
  The scanner acts on the world through the calls of \<open>sys_op\<close>, and a run returns the
  list of the calls it has issued next to its value. \<open>ProcessKill\<close> stands for
  \<open>process.kill()\<close> and \<open>process.terminate()\<close> of the child process.

  The world answers through \<open>scan_env\<close>: what the child process does
  (\<open>create_subprocess_exec\<close> raises, \<open>communicate()\<close> does not finish within the
  timeout, or the process exits with a return code and the text on its standard error,
  \<open>Inl\<close> the exception of \<open>stderr.decode()\<close> when the bytes do not decode), the output
  file it leaves, the readings of the
  clock, the identifiers drawn, and what each probe meets.
\<close>

datatype sys_op =
    CreateSubprocess "string list"
  | Communicate int
  | ProcessKill
  | Unlink string
  | OpenConnection string int

datatype process_outcome =
    SpawnFails error
  | TimesOut
  | Exits int "error + string"

text \<open>
  A line of the output file after \<open>json.loads\<close>: blank, not JSON, a value that is not a
  dictionary, or a dictionary with its \<open>host\<close> list. A host entry carries its address
  (\<open>None\<close> when \<open>host_data['addr'][0]['addr']\<close> raises) and for each entry of \<open>ports\<close>
  its port number (\<open>None\<close> when \<open>port_data['port'][0]['portid']\<close> raises).
\<close>

datatype host_data = Host "string option" "int option list"

datatype json_line = BlankLine | NotJSON | NotADict | HostList "host_data list"

datatype output_file = Missing | Unreadable | Content "json_line list"

datatype probe_outcome =
    ConnectTimeout
  | ConnectRefused
  | ConnectFails error
  | SendFails error
  | ReadTimeout
  | ReadFails error
  | Answers string
  | AnswersCloseFails string error

record MasscanScanner =
  rate :: int
  timeout :: int

record scan_env =
  session_uuid :: string
  file_uuid :: string
  clock_start :: datetime
  clock_found :: "nat \<Rightarrow> datetime"
  clock_end :: datetime
  child_process :: process_outcome
  child_output :: output_file
  probe :: "nat \<Rightarrow> probe_outcome"

text \<open>
  \<open>_parse_masscan_output\<close>. The innermost loop builds a \<open>ScanResult\<close>, whose validation
  raises for a port outside \<open>1 .. 65535\<close>. An exception inside a line ends that line;
  the results appended before it stay. The flag of the two inner loops says that the loop
  ended without an exception.
\<close>

fun parse_ports ::
  "(nat \<Rightarrow> datetime) \<Rightarrow> string \<Rightarrow> int option list \<Rightarrow> ScanResult list \<Rightarrow> ScanResult list \<times> bool" where
  "parse_ports clock addr [] acc = (acc, True)"
| "parse_ports clock addr (None # rest) acc = (acc, False)"
| "parse_ports clock addr (Some p # rest) acc =
     (if 1 \<le> p \<and> p \<le> 65535
      then parse_ports clock addr rest
             (acc @ [\<lparr> ip = addr, port = p, service = Some (get_service_name p []),
                       banner = None, is_new = True, timestamp = clock (length acc),
                       scan_id = None \<rparr>])
      else (acc, False))"

fun parse_hosts ::
  "(nat \<Rightarrow> datetime) \<Rightarrow> host_data list \<Rightarrow> ScanResult list \<Rightarrow> ScanResult list \<times> bool" where
  "parse_hosts clock [] acc = (acc, True)"
| "parse_hosts clock (Host None ports # rest) acc = (acc, False)"
| "parse_hosts clock (Host (Some addr) ports # rest) acc =
     (case parse_ports clock addr ports acc of
        (acc', True) \<Rightarrow> parse_hosts clock rest acc'
      | (acc', False) \<Rightarrow> (acc', False))"

fun parse_lines :: "(nat \<Rightarrow> datetime) \<Rightarrow> json_line list \<Rightarrow> ScanResult list \<Rightarrow> ScanResult list" where
  "parse_lines clock [] acc = acc"
| "parse_lines clock (HostList hosts # rest) acc =
     parse_lines clock rest (fst (parse_hosts clock hosts acc))"
| "parse_lines clock (other # rest) acc = parse_lines clock rest acc"

definition parse_masscan_output :: "scan_env \<Rightarrow> ScanResult list" where
  "parse_masscan_output env =
     (case child_output env of
        Missing \<Rightarrow> []
      | Unreadable \<Rightarrow> []
      | Content lines \<Rightarrow> parse_lines (clock_found env) lines [])"

definition output_path :: "scan_env \<Rightarrow> string" where
  "output_path env = ''/tmp/masscan_output_'' @ file_uuid env @ ''.json''"

definition masscan_cmd :: "MasscanScanner \<Rightarrow> scan_env \<Rightarrow> string list \<Rightarrow> int list \<Rightarrow> string list" where
  "masscan_cmd scanner env tgts ports =
     [''masscan'', join '' '' tgts, ''-p'', join '','' (map str_int ports),
      ''--rate'', str_int (rate scanner), ''-oJ'', output_path env, ''--wait'', ''5'']"

text \<open>
  \<open>_run_masscan\<close>: the results or the exception that leaves the function, and the calls
  issued. Both \<open>except\<close> branches log and re-raise; the \<open>finally\<close> branch removes the
  output file on every path.
\<close>

definition run_masscan ::
  "MasscanScanner \<Rightarrow> scan_env \<Rightarrow> string list \<Rightarrow> int list \<Rightarrow> (error + ScanResult list) \<times> sys_op list" where
  "run_masscan scanner env tgts ports =
     (let cmd = masscan_cmd scanner env tgts ports
      in case child_process env of
           SpawnFails e \<Rightarrow> (Inl e, [CreateSubprocess cmd, Unlink (output_path env)])
         | TimesOut \<Rightarrow>
             (Inl TimeoutError,
              [CreateSubprocess cmd, Communicate (timeout scanner), Unlink (output_path env)])
         | Exits returncode stderr \<Rightarrow>
             (if returncode \<noteq> 0
              then (case stderr of
                      Inl e \<Rightarrow> Inl e
                    | Inr text \<Rightarrow>
                        Inl (RuntimeError (''Masscan failed: ''
                               @ (if text \<noteq> [] then text else ''Unknown error''))))
              else Inr (parse_masscan_output env),
              [CreateSubprocess cmd, Communicate (timeout scanner), Unlink (output_path env)]))"

text \<open>
  \<open>_get_banner_for_port\<close>. The banner and the service are assigned after the read and
  before the connection is closed; every exception is caught and the result object is
  returned. The text read is already decoded (\<open>errors='ignore'\<close> never raises).
\<close>

fun get_banner_for_port :: "probe_outcome \<Rightarrow> ScanResult \<Rightarrow> error + ScanResult" where
  "get_banner_for_port (Answers text) result =
     Inr (result\<lparr> banner := Some (take 200 text), service := Some (analyze (take 200 text)) \<rparr>)"
| "get_banner_for_port (AnswersCloseFails text e) result =
     Inr (result\<lparr> banner := Some (take 200 text), service := Some (analyze (take 200 text)) \<rparr>)"
| "get_banner_for_port other result = Inr result"

text \<open>\<open>_get_banners_async\<close>: one task per result, gathered in the order of the tasks
  with exceptions returned as values, then the filter that keeps the values that are
  results.\<close>

definition get_banners_async ::
  "(nat \<Rightarrow> probe_outcome) \<Rightarrow> ScanResult list \<Rightarrow> ScanResult list \<times> sys_op list" where
  "get_banners_async prb rs =
     (let updated_results = map (\<lambda>(i, result). get_banner_for_port (prb i) result) (enumerate 0 rs)
      in (List.map_filter (\<lambda>r. case r of Inr result \<Rightarrow> Some result | Inl e \<Rightarrow> None) updated_results,
          map (\<lambda>result. OpenConnection (ip result) (port result)) rs))"

text \<open>\<open>scan_async\<close>: the session it returns and the calls issued.\<close>

definition scan_async ::
  "MasscanScanner \<Rightarrow> scan_env \<Rightarrow> string list \<Rightarrow> int list \<Rightarrow> bool \<Rightarrow> ScanSession \<times> sys_op list" where
  "scan_async scanner env tgts ports get_banners =
     (let session = \<lparr> session_id = session_uuid env, status = RUNNING,
                       start_time = clock_start env, end_time = None, targets = tgts,
                       results = [], total_results = 0, new_results = 0, errors = [] \<rparr>
      in case run_masscan scanner env tgts ports of
           (Inl e, ops) \<Rightarrow>
             (session\<lparr> status := FAILED, errors := errors session @ [str_error e],
                       end_time := Some (clock_end env) \<rparr>, ops)
         | (Inr rs, ops) \<Rightarrow>
             (let (rs', ops') = (if get_banners \<and> rs \<noteq> []
                                 then get_banners_async (probe env) rs else (rs, []))
              in (session\<lparr> results := rs', total_results := int (length rs'),
                           status := COMPLETED, end_time := Some (clock_end env) \<rparr>,
                  ops @ ops')))"

section \<open>Application (main.py)\<close>

text \<open>\<open>create_storage\<close> selects the backend; a call on the store meets the environment
  of its backend.\<close>

datatype storage = SQLiteStorage sqlite_db | JSONStorage json_data

record store_env =
  sqlite_call :: sqlite_env
  json_call :: json_env

fun save_scan_session ::
  "store_env \<Rightarrow> storage \<Rightarrow> ScanSession \<Rightarrow> error + (bool \<times> storage \<times> ScanSession)" where
  "save_scan_session env (SQLiteStorage db) session =
     map_sum id (\<lambda>(ok, db', session'). (ok, SQLiteStorage db', session'))
       (sqlite_save_scan_session (sqlite_call env) db session)"
| "save_scan_session env (JSONStorage file) session =
     (case json_save_scan_session (json_call env) file session of
        (ok, file', session') \<Rightarrow> Inr (ok, JSONStorage file', session'))"

record PortScannerApplication =
  app_scanner :: MasscanScanner
  app_storage :: storage
  app_notifier :: NotificationManager
  config_targets :: "string list"
  config_ports :: "int list"

record run_env =
  scan_world :: scan_env
  first_save :: store_env
  second_save :: store_env
  message_stamp :: string

text \<open>What a run leaves behind: the value returned, the store, the session object, the
  calls of the scanner, the messages passed to \<open>notify_all\<close> and the \<open>send\<close> calls.\<close>

record run_outcome =
  returned :: bool
  storage_after :: storage
  session_after :: ScanSession
  scanner_ops :: "sys_op list"
  notify_calls :: "ustr list"
  send_log :: "(string \<times> ustr) list"

text \<open>\<open>int(session.duration_seconds() or 0)\<close>: whole seconds, rounded towards zero.
  The code divides in floating point; the integer division here agrees with it while the
  number of microseconds is below \<open>2 ^ 53\<close>.\<close>

definition duration_int :: "ScanSession \<Rightarrow> int" where
  "duration_int session =
     (case end_time session of
        None \<Rightarrow> 0
      | Some t \<Rightarrow>
          (let d = t - start_time session
           in if d < 0 then - ((- d) div 1000000) else d div 1000000))"

definition notification_entry :: "ScanResult \<Rightarrow> new_result" where
  "notification_entry r =
     \<lparr> nr_ip = ip r, nr_port = port r,
       nr_service = (case service r of
                       None \<Rightarrow> ''Unknown''
                     | Some s \<Rightarrow> if s \<noteq> [] then s else ''Unknown'') \<rparr>"

text \<open>The closing log loop formats \<open>result.service\<close> with a width, which raises
  \<open>TypeError\<close> on \<open>None\<close>; the \<open>except\<close> branch of \<open>run_scan\<close> then returns \<open>False\<close>.\<close>

definition top_discoveries_ok :: "ScanSession \<Rightarrow> bool" where
  "top_discoveries_ok session =
     list_all (\<lambda>r. service r \<noteq> None) (take 10 (sort_key port (results session)))"

definition run_scan :: "PortScannerApplication \<Rightarrow> run_env \<Rightarrow> run_outcome" where
  "run_scan app env =
     (case scan_async (app_scanner app) (scan_world env) (config_targets app) (config_ports app) True of
        (session, ops) \<Rightarrow>
          if status session = FAILED
          then \<lparr> returned = False, storage_after = app_storage app, session_after = session,
                 scanner_ops = ops, notify_calls = [], send_log = [] \<rparr>
          else
            (case save_scan_session (first_save env) (app_storage app) session of
               Inl e \<Rightarrow>
                 \<lparr> returned = False, storage_after = app_storage app, session_after = session,
                   scanner_ops = ops, notify_calls = [], send_log = [] \<rparr>
             | Inr (ok1, storage1, session1) \<Rightarrow>
                 (let news = filter is_new (results session1);
                      session2 = session1\<lparr> new_results := int (length news),
                                           total_results := int (length (results session1)) \<rparr>
                  in case save_scan_session (second_save env) storage1 session2 of
                       Inl e \<Rightarrow>
                         \<lparr> returned = False, storage_after = storage1, session_after = session2,
                           scanner_ops = ops, notify_calls = [], send_log = [] \<rparr>
                     | Inr (ok2, storage2, session3) \<Rightarrow>
                         if news \<noteq> []
                         then
                           (let message = format_notification_message (message_stamp env)
                                            (map notification_entry news)
                                            \<lparr> sm_duration = Some (duration_int session3),
                                              sm_total_ports = Some (int (length (results session3))) \<rparr>
                            in \<lparr> returned = top_discoveries_ok session3,
                                 storage_after = storage2, session_after = session3,
                                 scanner_ops = ops, notify_calls = [message],
                                 send_log = snd (notify_all (app_notifier app) message) \<rparr>)
                         else
                           \<lparr> returned = top_discoveries_ok session3,
                             storage_after = storage2, session_after = session3,
                             scanner_ops = ops, notify_calls = [], send_log = [] \<rparr>)))"

section \<open>Fixtures\<close>

text \<open>The results and sessions of the specification's scenarios, a store environment
  without faults for each backend, and the stores after scenario A.\<close>

definition host_22 :: ScanResult where
  "host_22 = \<lparr> ip = ''10.0.0.1'', port = 22, service = Some ''OpenSSH'', banner = None,
               is_new = True, timestamp = 0, scan_id = None \<rparr>"

definition host_80 :: ScanResult where
  "host_80 = \<lparr> ip = ''10.0.0.1'', port = 80, service = Some ''Apache'', banner = None,
               is_new = True, timestamp = 0, scan_id = None \<rparr>"

definition session_A :: ScanSession where
  "session_A = \<lparr> session_id = ''a'', status = COMPLETED, start_time = 0, end_time = Some 5,
                 targets = [''10.0.0.0/24''], results = [host_22, host_80],
                 total_results = 2, new_results = 0, errors = [] \<rparr>"

definition session_B :: ScanSession where
  "session_B = \<lparr> session_id = ''b'', status = COMPLETED, start_time = 9, end_time = Some 12,
                 targets = [''10.0.0.0/24''], results = [host_22],
                 total_results = 1, new_results = 0, errors = [] \<rparr>"

definition session_F :: ScanSession where
  "session_F = \<lparr> session_id = ''f'', status = FAILED, start_time = 20, end_time = Some 21,
                 targets = [''10.0.0.0/24''], results = [],
                 total_results = 0, new_results = 0, errors = [''Masscan failed: no route''] \<rparr>"

definition sqlite_ok :: sqlite_env where
  "sqlite_ok = \<lparr> connect_error = None, fault_at = None,
                 uuid4 = (\<lambda>n. replicate (Suc n) CHR ''u''), tie_rank = (\<lambda>p. p) \<rparr>"

definition json_ok :: json_env where
  "json_ok = \<lparr> read_error = False, write_error = False \<rparr>"

definition empty_db :: sqlite_db where
  "empty_db = \<lparr> scan_sessions = [], scan_results = [] \<rparr>"

definition empty_file :: json_data where
  "empty_file = \<lparr> j_sessions = [], j_results = [] \<rparr>"

definition db_A :: sqlite_db where
  "db_A = \<lparr> scan_sessions = [session_to_row session_A],
            scan_results = [result_to_row ''u'' ''a'' host_22, result_to_row ''uu'' ''a'' host_80] \<rparr>"

definition file_A :: json_data where
  "file_A = \<lparr> j_sessions = [session_to_dict session_A],
              j_results = [result_to_dict ''a'' host_22, result_to_dict ''a'' host_80] \<rparr>"

text \<open>Scenario D: three channels are configured, Telegram without a token; the SMTP
  dialogue succeeds. \<open>throwing_sender\<close> is a notifier whose \<open>send\<close> raises.\<close>

definition config_D :: notifications_config where
  "config_D = \<lparr> telegram_enabled = True, telegram_token = Some [], telegram_chat_id = Some ''42'',
                email_enabled = True, email_smtp_server = Some ''smtp.example.org'',
                email_smtp_port = Some 587, email_sender_email = Some ''scanner@example.org'',
                email_sender_password = Some ''secret'', email_recipient = Some ''ops@example.org'',
                discord_enabled = True, discord_webhook_url = Some ''https://discord.example/hook'' \<rparr>"

definition network_D :: network where
  "network_D = \<lparr> telegram_post = (\<lambda>m. Status 200),
                 smtp_dialogue = (\<lambda>m. None),
                 discord_post = (\<lambda>m. ClientError (OSError ''connection reset'')) \<rparr>"

definition throwing_sender :: BaseNotifier where
  "throwing_sender = \<lparr> class_name = ''WebhookNotifier'', is_enabled = True,
                       send = (\<lambda>m. Raises (RuntimeError ''boom'')) \<rparr>"

definition succeeding_sender :: BaseNotifier where
  "succeeding_sender = \<lparr> class_name = ''PagerNotifier'', is_enabled = True,
                         send = (\<lambda>m. Returns True) \<rparr>"

definition misconfigured_sender :: BaseNotifier where
  "misconfigured_sender = TelegramNotifier (\<lambda>m. Status 200) (Some []) (Some ''42'')"

text \<open>A scanner and a world in which the bulk scan finds \<open>(10.0.0.1, 22)\<close> and the probe
  is refused; the same world with the bulk scan timing out, and with the engine exiting
  with code 1.\<close>

definition scanner_0 :: MasscanScanner where
  "scanner_0 = \<lparr> rate = 1000, timeout = 300 \<rparr>"

definition world_ok :: scan_env where
  "world_ok = \<lparr> session_uuid = ''s1'', file_uuid = ''f1'', clock_start = 0,
                clock_found = (\<lambda>n. 1000000), clock_end = 5000000,
                child_process = Exits 0 (Inr []),
                child_output = Content [HostList [Host (Some ''10.0.0.1'') [Some 22]]],
                probe = (\<lambda>i. ConnectRefused) \<rparr>"

definition world_timeout :: scan_env where
  "world_timeout = world_ok\<lparr> child_process := TimesOut \<rparr>"

definition world_exit_1 :: scan_env where
  "world_exit_1 = world_ok\<lparr> child_process := Exits 1 (Inr ''FAIL: permission denied'') \<rparr>"

definition found_22 :: ScanResult where
  "found_22 = \<lparr> ip = ''10.0.0.1'', port = 22, service = Some ''SSH'', banner = None,
                is_new = True, timestamp = 1000000, scan_id = None \<rparr>"

definition store_ok :: store_env where
  "store_ok = \<lparr> sqlite_call = sqlite_ok, json_call = json_ok \<rparr>"

definition app_A :: PortScannerApplication where
  "app_A = \<lparr> app_scanner = scanner_0, app_storage = SQLiteStorage db_A,
              app_notifier = \<lparr> notifiers = [succeeding_sender] \<rparr>,
              config_targets = [''10.0.0.0/24''], config_ports = [22, 80] \<rparr>"

definition run_env_ok :: run_env where
  "run_env_ok = \<lparr> scan_world = world_ok, first_save = store_ok, second_save = store_ok,
                  message_stamp = ''2024-01-01 00:00:00'' \<rparr>"

text \<open>Twelve new results on one host, the summary of their session and a time stamp.\<close>

definition entries_12 :: "new_result list" where
  "entries_12 =
     map (\<lambda>p. \<lparr> nr_ip = ''10.0.0.1'', nr_port = p, nr_service = ''SSH'' \<rparr>)
       [21, 22, 23, 25, 53, 80, 110, 143, 443, 465, 587, 993]"

definition summary_12 :: summary where
  "summary_12 = \<lparr> sm_duration = Some 5, sm_total_ports = Some 12 \<rparr>"

definition stamp_0 :: string where
  "stamp_0 = ''2024-01-01 00:00:00''"

lemmas fixture_defs =
  host_22_def host_80_def session_A_def session_B_def session_F_def
  sqlite_ok_def json_ok_def empty_db_def empty_file_def db_A_def file_A_def

lemmas sqlite_defs =
  sqlite_save_scan_session_def insert_result_def result_to_row_def session_to_row_def
  insert_or_replace_session_def sqlite_check_is_new_result_def sqlite_get_statistics_def
  group_by_port_def order_by_count_desc_def sqlite_popular_ports_def

lemmas json_defs =
  json_save_scan_session_def load_data_def save_data_def session_to_dict_def
  result_to_dict_def json_check_is_new_result_def json_get_statistics_def

section \<open>Properties of the history store\<close>

text \<open>Scenario A on both backends: saving \<open>session_A\<close> to the empty store succeeds and
  gives the stores \<open>db_A\<close> and \<open>file_A\<close>. The SQLite save leaves both results new.\<close>

lemma sqlite_scenario_A:
  "sqlite_save_scan_session sqlite_ok empty_db session_A = Inr (True, db_A, session_A)"
  by (simp add: fixture_defs sqlite_defs)

lemma json_scenario_A:
  "json_save_scan_session json_ok empty_file session_A = (True, file_A, session_A)"
  by (simp add: fixture_defs json_defs)

text \<open>
  Both backends keep at most one row for a pair \<open>(ip, port)\<close> on every save, with or
  without faults. On the SQLite backend a save that completes clears \<open>is_new\<close> on each
  result whose pair was stored before the call; the JSON backend returns the session
  object as it received it.
\<close>

lemma insert_result_unique:
  assumes "distinct (map (\<lambda>r. (r_ip r, r_port r)) rows)" "insert_result row rows = Inr rows'"
  shows "distinct (map (\<lambda>r. (r_ip r, r_port r)) rows')"
proof -
  have no: "\<not> list_ex (\<lambda>r. r_id r = r_id row \<or> (r_ip r = r_ip row \<and> r_port r = r_port row)) rows"
    and eq: "rows' = rows @ [row]"
    using assms(2) by (auto simp: insert_result_def split: if_splits)
  have "(r_ip row, r_port row) \<notin> set (map (\<lambda>r. (r_ip r, r_port r)) rows)"
    using no by (force simp: list_ex_iff)
  with assms(1) show ?thesis by (simp add: eq)
qed

lemma insert_result_grows:
  "insert_result row rows = Inr rows' \<Longrightarrow> set rows \<subseteq> set rows'"
  by (auto simp: insert_result_def split: if_splits)

lemma insert_result_conflict:
  "\<exists>r \<in> set rows. r_ip r = r_ip row \<and> r_port r = r_port row \<Longrightarrow> insert_result row rows = Inl IntegrityError"
  by (auto simp: insert_result_def list_ex_iff)

lemma sqlite_save_results_unique:
  assumes "distinct (map (\<lambda>r. (r_ip r, r_port r)) rows)"
    and "sqlite_save_results env sid k rows rs = Inr (rows', rs')"
  shows "distinct (map (\<lambda>r. (r_ip r, r_port r)) rows')"
  using assms
proof (induction rs arbitrary: k rows rs')
  case Nil
  then show ?case by simp
next
  case (Cons result rest)
  show ?case
  proof (cases "insert_result (result_to_row (uuid4 env (k - 1)) sid result) rows")
    case (Inl e)
    with Cons.prems obtain rs0 where "sqlite_save_results env sid (Suc k) rows rest = Inr (rows', rs0)"
      by (auto split: if_splits sum.splits prod.splits)
    with Cons.IH Cons.prems(1) show ?thesis by blast
  next
    case (Inr rows1)
    with Cons.prems obtain rs0 where "sqlite_save_results env sid (Suc k) rows1 rest = Inr (rows', rs0)"
      by (auto split: if_splits sum.splits prod.splits)
    moreover have "distinct (map (\<lambda>r. (r_ip r, r_port r)) rows1)"
      using insert_result_unique[OF Cons.prems(1) Inr] .
    ultimately show ?thesis using Cons.IH by blast
  qed
qed

lemma sqlite_save_scan_session_unique:
  assumes "distinct (map (\<lambda>r. (r_ip r, r_port r)) (scan_results db))"
    and "sqlite_save_scan_session env db session = Inr (ok, db', session')"
  shows "distinct (map (\<lambda>r. (r_ip r, r_port r)) (scan_results db'))"
  using assms
  by (auto simp: sqlite_save_scan_session_def dest: sqlite_save_results_unique
           split: option.splits if_splits sum.splits prod.splits)

lemma sqlite_save_results_flags:
  assumes "sqlite_save_results env sid k rows rs = Inr (rows', rs')"
  shows "length rs' = length rs
     \<and> set rows \<subseteq> set rows'
     \<and> (\<forall>i < length rs. (\<exists>r \<in> set rows. r_ip r = ip (rs ! i) \<and> r_port r = port (rs ! i))
            \<longrightarrow> \<not> is_new (rs' ! i))"
  using assms
proof (induction rs arbitrary: k rows rs')
  case Nil
  then show ?case by simp
next
  case (Cons result rest)
  let ?row = "result_to_row (uuid4 env (k - 1)) sid result"
  show ?case
  proof (cases "insert_result ?row rows")
    case (Inl e)
    with Cons.prems obtain rs0 where
      rec: "sqlite_save_results env sid (Suc k) rows rest = Inr (rows', rs0)"
      and out: "rs' = result\<lparr>is_new := False\<rparr> # rs0"
      by (auto split: if_splits sum.splits prod.splits)
    from Cons.IH[OF rec] show ?thesis
      unfolding out by (auto simp: nth_Cons')
  next
    case (Inr rows1)
    with Cons.prems obtain rs0 where
      rec: "sqlite_save_results env sid (Suc k) rows1 rest = Inr (rows', rs0)"
      and out: "rs' = result # rs0"
      by (auto split: if_splits sum.splits prod.splits)
    have grow: "set rows \<subseteq> set rows1" using insert_result_grows[OF Inr] .
    have fresh: "\<not> (\<exists>r \<in> set rows. r_ip r = ip result \<and> r_port r = port result)"
    proof
      assume "\<exists>r \<in> set rows. r_ip r = ip result \<and> r_port r = port result"
      then have "\<exists>r \<in> set rows. r_ip r = r_ip ?row \<and> r_port r = r_port ?row"
        by (simp add: result_to_row_def)
      from insert_result_conflict[OF this] Inr show False by simp
    qed
    note ih = Cons.IH[OF rec]
    have flags: "\<not> is_new (rs' ! i)"
      if i: "i < length (result # rest)"
        and ex: "\<exists>r \<in> set rows. r_ip r = ip ((result # rest) ! i) \<and> r_port r = port ((result # rest) ! i)"
      for i
    proof (cases i)
      case 0
      with ex fresh show ?thesis by simp
    next
      case (Suc j)
      with i have j: "j < length rest" by simp
      from ex Suc grow have "\<exists>r \<in> set rows1. r_ip r = ip (rest ! j) \<and> r_port r = port (rest ! j)"
        by auto
      with ih j have "\<not> is_new (rs0 ! j)" by blast
      with Suc show ?thesis by (simp add: out)
    qed
    have "length rs' = length (result # rest)" using ih by (simp add: out)
    moreover have "set rows \<subseteq> set rows'" using ih grow by blast
    ultimately show ?thesis using flags by blast
  qed
qed

lemma json_save_results_unique:
  assumes "distinct (map (\<lambda>r. (j_ip r, j_port r)) rows)"
  shows "distinct (map (\<lambda>r. (j_ip r, j_port r)) (json_save_results sid rows rs))"
  using assms
proof (induction rs arbitrary: rows)
  case Nil
  then show ?case by simp
next
  case (Cons result rest)
  have "distinct (map (\<lambda>r. (j_ip r, j_port r))
          (if \<not> list_ex (\<lambda>r. j_ip r = ip result \<and> j_port r = port result) rows
           then rows @ [result_to_dict sid result] else rows))"
    using Cons.prems by (auto simp: list_ex_iff result_to_dict_def)
  from Cons.IH[OF this] show ?case by (simp add: Let_def)
qed

lemma json_save_scan_session_unique:
  assumes "distinct (map (\<lambda>r. (j_ip r, j_port r)) (j_results doc))"
    and "json_save_scan_session env doc session = (ok, doc', session')"
  shows "distinct (map (\<lambda>r. (j_ip r, j_port r)) (j_results doc'))"
  using assms json_save_results_unique[of "[]" "session_id session" "results session"]
        json_save_results_unique[OF assms(1), of "session_id session" "results session"]
  by (auto simp: json_save_scan_session_def load_data_def save_data_def Let_def split: if_splits)

lemma json_save_scan_session_keeps_session:
  "snd (snd (json_save_scan_session env doc session)) = session"
  by (simp add: json_save_scan_session_def Let_def split: prod.splits)

text \<open>
  C1 (the code departs from the claim on the JSON backend). The claim: on either backend
  a save that meets an already stored \<open>(ip, port)\<close> pair skips the insert and sets
  \<open>is_new\<close> of the in-memory result to \<open>False\<close>. Re-saving \<open>(10.0.0.1, 22)\<close> after
  scenario A: the SQLite backend keeps its two rows and clears the flag; the JSON backend
  keeps its two rows and leaves the flag \<open>True\<close>.
\<close>

theorem json_resave_leaves_is_new:
  "map_sum id (\<lambda>(ok, db, s). (ok, length (scan_results db), map is_new (results s)))
       (sqlite_save_scan_session sqlite_ok db_A session_B) = Inr (True, 2, [False])
   \<and> (case json_save_scan_session json_ok file_A session_B of
         (ok, file, s) \<Rightarrow> (ok, length (j_results file), map is_new (results s)))
       = (True, 2, [True])"
  by (simp add: fixture_defs sqlite_defs json_defs)

text \<open>
  C2 as stated fails: with the pair \<open>(10.0.0.1, 22)\<close> stored and the lookup query
  raising, the SQLite \<open>check_is_new_result\<close> does not answer \<open>False\<close>.
\<close>

theorem check_is_new_result_error_counterexample:
  "sqlite_check_is_new_result (sqlite_ok\<lparr>fault_at := Some 0\<rparr>) db_A host_22 \<noteq> Inr False"
  by (simp add: fixture_defs sqlite_defs)

text \<open>
  C2 (amended). When a storage error occurs while the newness of a result is determined,
  \<open>check_is_new_result\<close> reports the result as new: the SQLite backend returns \<open>True\<close>
  from its \<open>except\<close> branch when the query raises, and the JSON backend returns \<open>True\<close>
  when the file cannot be loaded, whatever the store holds. An error on opening the
  SQLite connection is raised to the caller.
\<close>

theorem check_is_new_result_error_reports_new:
  "(connect_error env = None \<longrightarrow> fault_at env = Some 0 \<longrightarrow>
      sqlite_check_is_new_result env db result = Inr True)
   \<and> (read_error jenv \<longrightarrow> json_check_is_new_result jenv doc result = True)
   \<and> (connect_error env = Some e \<longrightarrow> sqlite_check_is_new_result env db result = Inl e)"
  by (simp add: sqlite_check_is_new_result_def json_check_is_new_result_def load_data_def)

theorem check_is_new_result_error_reports_new_witness:
  "sqlite_check_is_new_result (sqlite_ok\<lparr>fault_at := Some 0\<rparr>) db_A host_22 = Inr True
   \<and> json_check_is_new_result (json_ok\<lparr>read_error := True\<rparr>) file_A host_22 = True
   \<and> sqlite_check_is_new_result (sqlite_ok\<lparr>connect_error := Some (OperationalError ''unable to open database file'')\<rparr>)
        db_A host_22 = Inl (OperationalError ''unable to open database file'')"
  using check_is_new_result_error_reports_new
          [where env = "sqlite_ok\<lparr>fault_at := Some 0\<rparr>" and db = db_A and result = host_22
             and jenv = "json_ok\<lparr>read_error := True\<rparr>" and doc = file_A]
        check_is_new_result_error_reports_new
          [where env = "sqlite_ok\<lparr>connect_error := Some (OperationalError ''unable to open database file'')\<rparr>"
             and e = "OperationalError ''unable to open database file''"
             and db = db_A and result = host_22]
  by (simp add: sqlite_ok_def json_ok_def)

lemma json_save_session_F:
  "json_save_scan_session json_ok empty_file session_F
     = (True, \<lparr> j_sessions = [session_to_dict session_F], j_results = [] \<rparr>, session_F)"
  by (simp add: fixture_defs json_defs)

lemma sqlite_save_session_F:
  "sqlite_save_scan_session sqlite_ok empty_db session_F
     = Inr (True, \<lparr> scan_sessions = [session_to_row session_F], scan_results = [] \<rparr>, session_F)"
  by (simp add: fixture_defs sqlite_defs)

text \<open>
  Statistics: without faults the SQLite backend reports the number of result rows, the
  number of distinct addresses among them, the number of completed sessions and at most
  ten ports. After scenario A both backends report two results on one host.
\<close>

lemma sqlite_statistics_counts:
  assumes "connect_error env = None" "fault_at env = None"
  shows "\<exists>st. sqlite_get_statistics env db = Inr (Some st)
     \<and> st_total_results st = length (scan_results db)
     \<and> st_unique_hosts st = card (r_ip ` set (scan_results db))
     \<and> st_total_scans st = length (filter (\<lambda>s. s_status s = COMPLETED) (scan_sessions db))
     \<and> length (st_popular_ports st) \<le> 10"
  using assms by (simp add: sqlite_get_statistics_def sqlite_popular_ports_def)

lemma scenario_A_statistics:
  "sqlite_get_statistics sqlite_ok db_A
     = Inr (Some \<lparr> st_total_results = 2, st_unique_hosts = 1, st_total_scans = 1,
                    st_popular_ports = [(22, 1), (80, 1)] \<rparr>)"
  "json_get_statistics json_ok file_A
     = \<lparr> st_total_results = 2, st_unique_hosts = 1, st_total_scans = 1,
         st_popular_ports = [(22, 1), (80, 1)] \<rparr>"
  by (simp_all add: fixture_defs sqlite_defs json_defs)

text \<open>
  C6 (the code departs from the claim on the JSON backend). The claim: \<open>total_scans\<close>
  counts only the sessions with status \<open>completed\<close>. After saving the failed session
  \<open>session_F\<close> to an empty store, the SQLite backend reports 0 scans and the JSON backend,
  which returns the length of its session list, reports 1.
\<close>

theorem json_statistics_count_failed_session:
  "map_sum id (map_option st_total_scans)
       (sqlite_get_statistics sqlite_ok
          \<lparr> scan_sessions = [session_to_row session_F], scan_results = [] \<rparr>) = Inr (Some 0)
   \<and> st_total_scans (json_get_statistics json_ok
          \<lparr> j_sessions = [session_to_dict session_F], j_results = [] \<rparr>) = 1"
  by (simp add: fixture_defs sqlite_defs json_defs)

section \<open>Properties of the notification fan-out and of the message\<close>

lemma append_bullets_concat:
  "append_bullets message rs = message @ concat (map bullet_line rs)"
  by (induction rs arbitrary: message) simp_all

lemma created_manager_enabled:
  "\<forall>n \<in> set (notifiers (create_notification_manager net config)). is_enabled n"
  by (auto simp: create_notification_manager_def add_notifier_def new_manager_def Let_def)

lemma truthy_iff: "truthy x \<longleftrightarrow> x \<notin> {None, Some []}"
  by (cases x) (auto simp: truthy_def)

lemma truthy_int_iff: "truthy_int x \<longleftrightarrow> x \<notin> {None, Some 0}"
  by (cases x) (auto simp: truthy_int_def)

lemma notifier_constructors:
  "(is_enabled (TelegramNotifier post token chat_id)
       \<longleftrightarrow> token \<notin> {None, Some []} \<and> chat_id \<notin> {None, Some []})
   \<and> (is_enabled (EmailNotifier smtp server prt sender password recipient)
       \<longleftrightarrow> server \<notin> {None, Some []} \<and> prt \<notin> {None, Some 0} \<and> sender \<notin> {None, Some []}
            \<and> password \<notin> {None, Some []} \<and> recipient \<notin> {None, Some []})
   \<and> (is_enabled (DiscordNotifier post url) \<longleftrightarrow> url \<notin> {None, Some []})
   \<and> send (TelegramNotifier post token chat_id) message
       = Returns (token \<notin> {None, Some []} \<and> chat_id \<notin> {None, Some []}
                  \<and> post message = Status 200)
   \<and> send (EmailNotifier smtp server prt sender password recipient) message
       = Returns (server \<notin> {None, Some []} \<and> prt \<notin> {None, Some 0} \<and> sender \<notin> {None, Some []}
                  \<and> password \<notin> {None, Some []} \<and> recipient \<notin> {None, Some []}
                  \<and> smtp message = None)
   \<and> send (DiscordNotifier post url) message
       = Returns (url \<notin> {None, Some []} \<and> post message \<in> {Status 200, Status 204})"
  by (auto simp: TelegramNotifier_def EmailNotifier_def DiscordNotifier_def Let_def
        truthy_iff truthy_int_iff split: http_outcome.splits option.splits)

lemma created_notifiers:
  "notifiers (create_notification_manager net config)
     = (if telegram_enabled config \<and> telegram_token config \<notin> {None, Some []}
           \<and> telegram_chat_id config \<notin> {None, Some []}
        then [TelegramNotifier (telegram_post net) (telegram_token config) (telegram_chat_id config)]
        else [])
     @ (if email_enabled config \<and> email_smtp_server config \<notin> {None, Some []}
           \<and> email_smtp_port config \<notin> {None, Some 0}
           \<and> email_sender_email config \<notin> {None, Some []}
           \<and> email_sender_password config \<notin> {None, Some []}
           \<and> email_recipient config \<notin> {None, Some []}
        then [EmailNotifier (smtp_dialogue net) (email_smtp_server config) (email_smtp_port config)
                (email_sender_email config) (email_sender_password config) (email_recipient config)]
        else [])
     @ (if discord_enabled config \<and> discord_webhook_url config \<notin> {None, Some []}
        then [DiscordNotifier (discord_post net) (discord_webhook_url config)] else [])"
  by (simp add: create_notification_manager_def add_notifier_def new_manager_def Let_def
        TelegramNotifier_def EmailNotifier_def DiscordNotifier_def truthy_iff truthy_int_iff)

lemma created_classes:
  "map class_name (notifiers (create_notification_manager net config))
     = (if telegram_enabled config \<and> telegram_token config \<notin> {None, Some []}
           \<and> telegram_chat_id config \<notin> {None, Some []}
        then [''TelegramNotifier''] else [])
     @ (if email_enabled config \<and> email_smtp_server config \<notin> {None, Some []}
           \<and> email_smtp_port config \<notin> {None, Some 0}
           \<and> email_sender_email config \<notin> {None, Some []}
           \<and> email_sender_password config \<notin> {None, Some []}
           \<and> email_recipient config \<notin> {None, Some []}
        then [''EmailNotifier''] else [])
     @ (if discord_enabled config \<and> discord_webhook_url config \<notin> {None, Some []}
        then [''DiscordNotifier''] else [])"
  by (simp add: create_notification_manager_def add_notifier_def new_manager_def Let_def
        TelegramNotifier_def EmailNotifier_def DiscordNotifier_def truthy_iff truthy_int_iff)

lemma scenario_D_log:
  "map fst (snd (notify_all (add_notifier (add_notifier (add_notifier new_manager
               misconfigured_sender) throwing_sender) succeeding_sender) message))
     = [''WebhookNotifier'', ''PagerNotifier'']"
  by (simp add: notify_all_def add_notifier_def new_manager_def misconfigured_sender_def
          throwing_sender_def succeeding_sender_def TelegramNotifier_def truthy_def)

text \<open>
  C7. \<open>notify_all\<close> returns the number of channels whose \<open>send\<close> returned \<open>True\<close>.
  The count of a list of channels is the sum of the counts of its parts, and a channel
  that returns \<open>False\<close> or raises leaves the count of the others as it is. A notifier that
  is not enabled is not added to the manager, so every notifier of a manager built by
  \<open>create_notification_manager\<close> is enabled.

  A notifier is enabled exactly when its required configuration is complete: Telegram
  needs a token and a chat id, e-mail a server, a port other than 0, a sender, a password
  and a recipient, Discord a webhook address, none of them missing or empty. The manager
  that \<open>create_notification_manager\<close> builds holds, in this order, exactly the
  Telegram, e-mail and Discord notifiers that are switched on and completely configured.
  A send of these three classes returns \<open>True\<close> exactly when the notifier is enabled and
  the service accepts the message, and never raises.

  Scenario D: of three senders the misconfigured one is left out, so \<open>send\<close> is called on
  the two others only; one raises and one succeeds, and the count is 1.
\<close>

theorem notify_all_counts_successes:
  "fst (notify_all manager message)
     = length (filter (\<lambda>n. send n message = Returns True) (notifiers manager))
   \<and> fst (notify_all \<lparr>notifiers = ns @ ms\<rparr> message)
     = fst (notify_all \<lparr>notifiers = ns\<rparr> message) + fst (notify_all \<lparr>notifiers = ms\<rparr> message)
   \<and> (send failing message \<noteq> Returns True \<longrightarrow>
        fst (notify_all \<lparr>notifiers = ns @ failing # ms\<rparr> message)
          = fst (notify_all \<lparr>notifiers = ns @ ms\<rparr> message))
   \<and> (\<not> is_enabled notifier \<longrightarrow> add_notifier manager notifier = manager)
   \<and> (is_enabled notifier \<longrightarrow>
        notifiers (add_notifier manager notifier) = notifiers manager @ [notifier])
   \<and> (\<forall>n \<in> set (notifiers (create_notification_manager net config)). is_enabled n)
   \<and> fst (notify_all (add_notifier (add_notifier (add_notifier new_manager
               misconfigured_sender) throwing_sender) succeeding_sender) message) = 1
   \<and> map fst (snd (notify_all (add_notifier (add_notifier (add_notifier new_manager
               misconfigured_sender) throwing_sender) succeeding_sender) message))
       = [''WebhookNotifier'', ''PagerNotifier'']
   \<and> (is_enabled (TelegramNotifier post token chat_id)
       \<longleftrightarrow> token \<notin> {None, Some []} \<and> chat_id \<notin> {None, Some []})
   \<and> (is_enabled (EmailNotifier smtp server prt sender password recipient)
       \<longleftrightarrow> server \<notin> {None, Some []} \<and> prt \<notin> {None, Some 0} \<and> sender \<notin> {None, Some []}
            \<and> password \<notin> {None, Some []} \<and> recipient \<notin> {None, Some []})
   \<and> (is_enabled (DiscordNotifier post url) \<longleftrightarrow> url \<notin> {None, Some []})
   \<and> send (TelegramNotifier post token chat_id) message
       = Returns (token \<notin> {None, Some []} \<and> chat_id \<notin> {None, Some []}
                  \<and> post message = Status 200)
   \<and> send (EmailNotifier smtp server prt sender password recipient) message
       = Returns (server \<notin> {None, Some []} \<and> prt \<notin> {None, Some 0} \<and> sender \<notin> {None, Some []}
                  \<and> password \<notin> {None, Some []} \<and> recipient \<notin> {None, Some []}
                  \<and> smtp message = None)
   \<and> send (DiscordNotifier post url) message
       = Returns (url \<notin> {None, Some []} \<and> post message \<in> {Status 200, Status 204})
   \<and> notifiers (create_notification_manager net config)
     = (if telegram_enabled config \<and> telegram_token config \<notin> {None, Some []}
           \<and> telegram_chat_id config \<notin> {None, Some []}
        then [TelegramNotifier (telegram_post net) (telegram_token config) (telegram_chat_id config)]
        else [])
     @ (if email_enabled config \<and> email_smtp_server config \<notin> {None, Some []}
           \<and> email_smtp_port config \<notin> {None, Some 0}
           \<and> email_sender_email config \<notin> {None, Some []}
           \<and> email_sender_password config \<notin> {None, Some []}
           \<and> email_recipient config \<notin> {None, Some []}
        then [EmailNotifier (smtp_dialogue net) (email_smtp_server config) (email_smtp_port config)
                (email_sender_email config) (email_sender_password config) (email_recipient config)]
        else [])
     @ (if discord_enabled config \<and> discord_webhook_url config \<notin> {None, Some []}
        then [DiscordNotifier (discord_post net) (discord_webhook_url config)] else [])
   \<and> map class_name (notifiers (create_notification_manager net config))
     = (if telegram_enabled config \<and> telegram_token config \<notin> {None, Some []}
           \<and> telegram_chat_id config \<notin> {None, Some []}
        then [''TelegramNotifier''] else [])
     @ (if email_enabled config \<and> email_smtp_server config \<notin> {None, Some []}
           \<and> email_smtp_port config \<notin> {None, Some 0}
           \<and> email_sender_email config \<notin> {None, Some []}
           \<and> email_sender_password config \<notin> {None, Some []}
           \<and> email_recipient config \<notin> {None, Some []}
        then [''EmailNotifier''] else [])
     @ (if discord_enabled config \<and> discord_webhook_url config \<notin> {None, Some []}
        then [''DiscordNotifier''] else [])"
proof -
  have count: "\<And>m. fst (notify_all m message)
       = length (filter (\<lambda>n. send n message = Returns True) (notifiers m))"
    by (simp add: notify_all_def Let_def filter_map comp_def split: list.split)
  have scenario: "fst (notify_all (add_notifier (add_notifier (add_notifier new_manager
               misconfigured_sender) throwing_sender) succeeding_sender) message) = 1"
    by (simp add: count add_notifier_def new_manager_def misconfigured_sender_def
          throwing_sender_def succeeding_sender_def TelegramNotifier_def truthy_def)
  have first: "fst (notify_all manager message)
     = length (filter (\<lambda>n. send n message = Returns True) (notifiers manager))
   \<and> fst (notify_all \<lparr>notifiers = ns @ ms\<rparr> message)
     = fst (notify_all \<lparr>notifiers = ns\<rparr> message) + fst (notify_all \<lparr>notifiers = ms\<rparr> message)
   \<and> (send failing message \<noteq> Returns True \<longrightarrow>
        fst (notify_all \<lparr>notifiers = ns @ failing # ms\<rparr> message)
          = fst (notify_all \<lparr>notifiers = ns @ ms\<rparr> message))
   \<and> (\<not> is_enabled notifier \<longrightarrow> add_notifier manager notifier = manager)
   \<and> (is_enabled notifier \<longrightarrow>
        notifiers (add_notifier manager notifier) = notifiers manager @ [notifier])
   \<and> (\<forall>n \<in> set (notifiers (create_notification_manager net config)). is_enabled n)"
    using created_manager_enabled by (simp add: count add_notifier_def)
  note ctor = notifier_constructors
                [of post token chat_id smtp server prt sender password recipient url message]
  note parts = conjI [OF first conjI [OF scenario conjI [OF scenario_D_log [of message]
                 conjI [OF ctor conjI [OF created_notifiers [of net config]
                   created_classes [of net config]]]]]]
  show ?thesis
    by (rule parts [unfolded conj_assoc])
qed

theorem notify_all_counts_successes_witness:
  "send throwing_sender (u ''hello'') \<noteq> Returns True
   \<and> fst (notify_all \<lparr>notifiers = [succeeding_sender] @ throwing_sender # [succeeding_sender]\<rparr>
            (u ''hello'')) = 2
   \<and> \<not> is_enabled misconfigured_sender
   \<and> add_notifier new_manager misconfigured_sender = new_manager
   \<and> is_enabled succeeding_sender
   \<and> notifiers (add_notifier new_manager succeeding_sender) = [succeeding_sender]
   \<and> map class_name (notifiers (create_notification_manager network_D config_D))
        = [''EmailNotifier'', ''DiscordNotifier'']
   \<and> map class_name (notifiers (create_notification_manager network_D
          (config_D\<lparr> email_sender_password := None \<rparr>)))
        = [''DiscordNotifier'']
   \<and> map class_name (notifiers (create_notification_manager network_D
          (config_D\<lparr> telegram_token := Some ''123:abc'' \<rparr>)))
        = [''TelegramNotifier'', ''EmailNotifier'', ''DiscordNotifier'']
   \<and> list_all is_enabled (notifiers (create_notification_manager network_D config_D))
   \<and> fst (notify_all (create_notification_manager network_D config_D) (u ''hello'')) = 1"
  using notify_all_counts_successes
          [where manager = new_manager and message = "u ''hello''"
             and ns = "[succeeding_sender]" and ms = "[succeeding_sender]"
             and failing = throwing_sender and notifier = misconfigured_sender
             and net = network_D and config = config_D]
        notify_all_counts_successes
          [where manager = new_manager and notifier = succeeding_sender]
        notify_all_counts_successes
          [where manager = "create_notification_manager network_D config_D"
             and message = "u ''hello''"]
        notify_all_counts_successes
          [where net = network_D and config = "config_D\<lparr> email_sender_password := None \<rparr>"]
        notify_all_counts_successes
          [where net = network_D and config = "config_D\<lparr> telegram_token := Some ''123:abc'' \<rparr>"]
  by (simp add: list_all_iff throwing_sender_def succeeding_sender_def misconfigured_sender_def
        TelegramNotifier_def EmailNotifier_def DiscordNotifier_def truthy_def truthy_int_def
        new_manager_def create_notification_manager_def add_notifier_def network_D_def
        config_D_def notify_all_def)

lemmas str_defs = str_int_def str_nat.simps digit_char_def

lemma digit_char_code: "d < 10 \<Longrightarrow> of_char (digit_char d) = 48 + d"
proof -
  assume "d < 10"
  then have "d \<in> {0, 1, 2, 3, 4, 5, 6, 7, 8, 9}" by auto
  then show ?thesis by (auto simp: digit_char_def)
qed

lemma str_nat_codes: "\<forall>c \<in> set (str_nat n). 48 \<le> (of_char c :: nat) \<and> (of_char c :: nat) \<le> 57"
proof (induction n rule: str_nat.induct)
  case (1 n)
  show ?case
  proof (cases "n < 10")
    case True
    then show ?thesis by (subst str_nat.simps) (simp add: digit_char_code)
  next
    case False
    have "n mod 10 < 10" by simp
    with False 1 show ?thesis
      by (subst str_nat.simps) (simp add: digit_char_code)
  qed
qed

lemma decimal_value_snoc:
  "decimal_value (s @ [c]) = 10 * decimal_value s + (of_char c - 48)"
  by (simp add: decimal_value_def)

lemma decimal_value_str_nat: "decimal_value (str_nat n) = n"
proof (induction n rule: str_nat.induct)
  case (1 n)
  show ?case
  proof (cases "n < 10")
    case True
    then show ?thesis
      by (subst str_nat.simps) (simp add: decimal_value_def digit_char_code)
  next
    case False
    have "n mod 10 < 10" by simp
    with False 1 show ?thesis
      by (subst str_nat.simps) (simp add: decimal_value_snoc digit_char_code)
  qed
qed

lemma str_nat_digits: "list_all is_digit (str_nat n)"
  using str_nat_codes[of n] by (simp add: list_all_iff is_digit_def)

lemma str_nat_no_newline: "(10::nat) \<notin> of_char ` set (str_nat n)"
  using str_nat_codes[of n] by fastforce

lemma str_int_no_newline: "(10::nat) \<notin> of_char ` set (str_int i)"
  using str_nat_no_newline by (auto simp: str_int_def)

lemma newline_code: "(10::nat) \<in> of_char ` set s \<longleftrightarrow> CHR 0x0A \<in> set s"
proof -
  have "(of_char c :: nat) = 10 \<longleftrightarrow> c = CHR 0x0A" for c
  proof -
    have "(of_char (CHR 0x0A) :: nat) = 10" by simp
    then show ?thesis by (metis of_char_eq_iff)
  qed
  then show ?thesis by (auto simp: image_iff)
qed

lemma split_acc_segment:
  "(10::nat) \<notin> set a \<Longrightarrow> split_acc cur (a @ b) = split_acc (cur @ a) b"
  by (induction a arbitrary: cur) auto

lemma split_acc_items:
  assumes "\<forall>x \<in> set xs. (10::nat) \<notin> set (f x)"
  shows "split_acc cur (concat (map (\<lambda>r. 0xA # f r) xs) @ 0xA # rest)
           = cur # map f xs @ split_acc [] rest"
  using assms
proof (induction xs arbitrary: cur)
  case Nil
  show ?case by simp
next
  case (Cons x xs)
  then have "split_acc (f x) (concat (map (\<lambda>r. 0xA # f r) xs) @ 0xA # rest)
               = f x # map f xs @ split_acc [] rest"
    by simp
  moreover have "(10::nat) \<notin> set (f x)" using Cons.prems by simp
  ultimately show ?case
    using split_acc_segment[of "f x" "[]"] by simp
qed

lemma u_strip_trim:
  assumes "u_isspace w" "\<not> u_isspace a" "\<not> u_isspace (last (a # rest))"
  shows "u_strip (w # a # rest) = a # rest"
proof -
  have "dropWhile u_isspace (rev (a # rest)) = rev (a # rest)"
    using assms(3) by (subst dropWhile_eq_self_iff) (simp add: hd_rev del: rev.simps last.simps)
  then show ?thesis
    using assms(1,2) by (simp add: u_strip_def del: rev.simps)
qed


lemma bullet_line_text:
  "bullet_line = (\<lambda>r. [0xA, 0x2022, 0x20] @ map of_char (nr_ip r) @ [0x3A]
                     @ map of_char (str_int (nr_port r)) @ [0x20, 0x2D, 0x20]
                     @ map of_char (nr_service r))"
  by (rule ext) (simp add: bullet_line_def u_def)

lemma str_int_0: "str_int 0 = ''0''"
  by (simp add: str_int_def str_nat.simps digit_char_def)

lemma message_text:
  "format_notification_message stamp entries sm =
     [0x1F50D, 0x20, 0x2A, 0x420, 0x435, 0x437, 0x443, 0x43B, 0x44C, 0x442, 0x430,
       0x442, 0x44B, 0x20, 0x441, 0x43A, 0x430, 0x43D, 0x438, 0x440, 0x43E, 0x432,
       0x430, 0x43D, 0x438, 0x44F, 0x20, 0x43F, 0x43E, 0x440, 0x442, 0x43E, 0x432,
       0x2A, 0xA, 0xA, 0x23F0, 0x20, 0x412, 0x440, 0x435, 0x43C, 0x44F, 0x3A, 0x20]
     @ map of_char stamp
     @ [0xA, 0x1F4CA, 0x20, 0x41D, 0x430, 0x439, 0x434, 0x435, 0x43D, 0x43E, 0x20,
       0x43D, 0x43E, 0x432, 0x44B, 0x445, 0x3A, 0x20]
     @ map of_char (str_nat (length entries))
     @ [0xA, 0x23F1, 0xFE0F, 0x20, 0x414, 0x43B, 0x438, 0x442, 0x435, 0x43B, 0x44C,
       0x43D, 0x43E, 0x441, 0x442, 0x44C, 0x3A, 0x20]
     @ map of_char (case sm_duration sm of None \<Rightarrow> ''N/A'' | Some d \<Rightarrow> str_int d)
     @ [0x441, 0xA, 0x1F4C8, 0x20, 0x412, 0x441, 0x435, 0x433, 0x43E, 0x20, 0x43D,
       0x430, 0x439, 0x434, 0x435, 0x43D, 0x43E, 0x20, 0x43F, 0x43E, 0x440, 0x442,
       0x43E, 0x432, 0x3A, 0x20]
     @ map of_char (case sm_total_ports sm of None \<Rightarrow> ''0'' | Some t \<Rightarrow> str_int t)
     @ [0xA, 0xA, 0x2A, 0x41D, 0x43E, 0x432, 0x44B, 0x435, 0x20, 0x43E, 0x442, 0x43A,
       0x440, 0x44B, 0x442, 0x44B, 0x435, 0x20, 0x43F, 0x43E, 0x440, 0x442, 0x44B,
       0x3A, 0x2A, 0xA]
     @ concat (map (\<lambda>r. [0xA, 0x2022, 0x20] @ map of_char (nr_ip r) @ [0x3A]
                     @ map of_char (str_int (nr_port r)) @ [0x20, 0x2D, 0x20]
                     @ map of_char (nr_service r))
                   (take 10 entries))
     @ (if 10 < length entries
        then [0xA, 0x2022, 0x20, 0x2E, 0x2E, 0x2E, 0x20, 0x438, 0x20, 0x435, 0x449, 0x451,
       0x20]
             @ map of_char (str_nat (length entries - 10))
        else [])
     @ [0xA, 0xA, 0x2705, 0x20, 0x421, 0x43A, 0x430, 0x43D, 0x438, 0x440, 0x43E, 0x432,
       0x430, 0x43D, 0x438, 0x435, 0x20, 0x437, 0x430, 0x432, 0x435, 0x440, 0x448,
       0x435, 0x43D, 0x43E, 0x20, 0x443, 0x441, 0x43F, 0x435, 0x448, 0x43D, 0x43E]"
proof -
  have raw: "format_notification_message stamp entries sm
     = u_strip (message_header stamp (length entries) sm
                @ concat (map bullet_line (take 10 entries))
                @ (if 10 < length entries then more_line (length entries - 10) else [])
                @ message_footer)"
    by (simp add: format_notification_message_def append_bullets_concat Let_def)
  show ?thesis
    unfolding raw bullet_line_text
    by (simp add: message_header_def more_line_def message_footer_def u_def str_int_0
          u_strip_trim u_isspace_def split: option.split)
qed


lemma str_nat_newline_free: "CHR 0x0A \<notin> set (str_nat n)"
  using str_nat_no_newline[of n] by (simp add: newline_code)

lemma str_int_newline_free: "CHR 0x0A \<notin> set (str_int i)"
  using str_int_no_newline[of i] by (simp add: newline_code)

lemma filter_bullets:
  "filter is_bullet_line (map (\<lambda>r. 0x2022 # 0x20 # g r) xs) = map (\<lambda>r. 0x2022 # 0x20 # g r) xs"
  by (induction xs) auto

lemma message_bullet_lines:
  assumes "CHR 0x0A \<notin> set stamp"
    and "\<forall>r \<in> set entries. CHR 0x0A \<notin> set (nr_ip r) \<and> CHR 0x0A \<notin> set (nr_service r)"
  shows "filter is_bullet_line (split_lines (format_notification_message stamp entries sm))
     = map (\<lambda>r. [0x2022, 0x20] @ map of_char (nr_ip r) @ [0x3A]
                 @ map of_char (str_int (nr_port r)) @ [0x20, 0x2D, 0x20]
                 @ map of_char (nr_service r))
           (take 10 entries)
       @ (if 10 < length entries
          then [[0x2022, 0x20, 0x2E, 0x2E, 0x2E, 0x20, 0x438, 0x20, 0x435, 0x449, 0x451, 0x20]
                @ map of_char (str_nat (length entries - 10))]
          else [])"
proof -
  have st: "(10::nat) \<notin> of_char ` set stamp"
    using assms(1) by (simp add: newline_code)
  have items: "\<forall>r \<in> set entries.
        (10::nat) \<notin> set (0x2022 # 0x20 # map of_char (nr_ip r) @ 0x3A
                 # map of_char (str_int (nr_port r)) @ 0x20 # 0x2D # 0x20
                 # map of_char (nr_service r))"
    using assms(2) str_int_no_newline by (auto simp: newline_code)
  then have items10: "\<forall>r \<in> set (take 10 entries).
        (10::nat) \<notin> set (0x2022 # 0x20 # map of_char (nr_ip r) @ 0x3A
                 # map of_char (str_int (nr_port r)) @ 0x20 # 0x2D # 0x20
                 # map of_char (nr_service r))"
    by (meson in_set_takeD)
  note seg = split_acc_segment split_acc_items [OF items] split_acc_items [OF items10]
  show ?thesis
    unfolding message_text split_lines_def
    using st
    by (simp add: seg str_nat_newline_free str_int_newline_free filter_bullets newline_code
          split: option.split)
qed


text \<open>
  C10. The rendered message is the text spelled out below: the header, then for each of
  the first ten entries, in their order, a line that starts with the bullet and carries
  the address, the port and the service of the entry, then, when there are more than ten
  entries, one more line that ends with the decimal numeral of the number of entries
  beyond the tenth, then the footer. When the time stamp and the addresses and service
  names of the entries contain no line feed, the lines of the message that start with a
  bullet are exactly these: one line for each of the first ten entries and the additional
  line when there are more than ten. The numeral of the additional line denotes the
  number of entries beyond the tenth.
\<close>

theorem notification_message_lists_first_ten:
  "format_notification_message stamp entries sm =
     [0x1F50D, 0x20, 0x2A, 0x420, 0x435, 0x437, 0x443, 0x43B, 0x44C, 0x442, 0x430,
       0x442, 0x44B, 0x20, 0x441, 0x43A, 0x430, 0x43D, 0x438, 0x440, 0x43E, 0x432,
       0x430, 0x43D, 0x438, 0x44F, 0x20, 0x43F, 0x43E, 0x440, 0x442, 0x43E, 0x432,
       0x2A, 0xA, 0xA, 0x23F0, 0x20, 0x412, 0x440, 0x435, 0x43C, 0x44F, 0x3A, 0x20]
     @ map of_char stamp
     @ [0xA, 0x1F4CA, 0x20, 0x41D, 0x430, 0x439, 0x434, 0x435, 0x43D, 0x43E, 0x20,
       0x43D, 0x43E, 0x432, 0x44B, 0x445, 0x3A, 0x20]
     @ map of_char (str_nat (length entries))
     @ [0xA, 0x23F1, 0xFE0F, 0x20, 0x414, 0x43B, 0x438, 0x442, 0x435, 0x43B, 0x44C,
       0x43D, 0x43E, 0x441, 0x442, 0x44C, 0x3A, 0x20]
     @ map of_char (case sm_duration sm of None \<Rightarrow> ''N/A'' | Some d \<Rightarrow> str_int d)
     @ [0x441, 0xA, 0x1F4C8, 0x20, 0x412, 0x441, 0x435, 0x433, 0x43E, 0x20, 0x43D,
       0x430, 0x439, 0x434, 0x435, 0x43D, 0x43E, 0x20, 0x43F, 0x43E, 0x440, 0x442,
       0x43E, 0x432, 0x3A, 0x20]
     @ map of_char (case sm_total_ports sm of None \<Rightarrow> ''0'' | Some t \<Rightarrow> str_int t)
     @ [0xA, 0xA, 0x2A, 0x41D, 0x43E, 0x432, 0x44B, 0x435, 0x20, 0x43E, 0x442, 0x43A,
       0x440, 0x44B, 0x442, 0x44B, 0x435, 0x20, 0x43F, 0x43E, 0x440, 0x442, 0x44B,
       0x3A, 0x2A, 0xA]
     @ concat (map (\<lambda>r. [0xA, 0x2022, 0x20] @ map of_char (nr_ip r) @ [0x3A]
                     @ map of_char (str_int (nr_port r)) @ [0x20, 0x2D, 0x20]
                     @ map of_char (nr_service r))
                   (take 10 entries))
     @ (if 10 < length entries
        then [0xA, 0x2022, 0x20, 0x2E, 0x2E, 0x2E, 0x20, 0x438, 0x20, 0x435, 0x449, 0x451,
       0x20]
             @ map of_char (str_nat (length entries - 10))
        else [])
     @ [0xA, 0xA, 0x2705, 0x20, 0x421, 0x43A, 0x430, 0x43D, 0x438, 0x440, 0x43E, 0x432,
       0x430, 0x43D, 0x438, 0x435, 0x20, 0x437, 0x430, 0x432, 0x435, 0x440, 0x448,
       0x435, 0x43D, 0x43E, 0x20, 0x443, 0x441, 0x43F, 0x435, 0x448, 0x43D, 0x43E]
   \<and> (CHR 0x0A \<notin> set stamp \<longrightarrow>
      (\<forall>r \<in> set entries. CHR 0x0A \<notin> set (nr_ip r) \<and> CHR 0x0A \<notin> set (nr_service r)) \<longrightarrow>
        filter is_bullet_line (split_lines (format_notification_message stamp entries sm))
          = map (\<lambda>r. [0x2022, 0x20] @ map of_char (nr_ip r) @ [0x3A]
                      @ map of_char (str_int (nr_port r)) @ [0x20, 0x2D, 0x20]
                      @ map of_char (nr_service r))
                (take 10 entries)
            @ (if 10 < length entries
               then [[0x2022, 0x20, 0x2E, 0x2E, 0x2E, 0x20, 0x438, 0x20, 0x435, 0x449, 0x451, 0x20]
                     @ map of_char (str_nat (length entries - 10))]
               else [])
        \<and> length (filter is_bullet_line
                     (split_lines (format_notification_message stamp entries sm)))
          = min 10 (length entries) + (if 10 < length entries then 1 else 0))
   \<and> decimal_value (str_nat (length entries - 10)) = length entries - 10
   \<and> list_all is_digit (str_nat (length entries - 10))"
proof -
  have lines: "filter is_bullet_line (split_lines (format_notification_message stamp entries sm))
          = map (\<lambda>r. [0x2022, 0x20] @ map of_char (nr_ip r) @ [0x3A]
                      @ map of_char (str_int (nr_port r)) @ [0x20, 0x2D, 0x20]
                      @ map of_char (nr_service r))
                (take 10 entries)
            @ (if 10 < length entries
               then [[0x2022, 0x20, 0x2E, 0x2E, 0x2E, 0x20, 0x438, 0x20, 0x435, 0x449, 0x451, 0x20]
                     @ map of_char (str_nat (length entries - 10))]
               else [])
        \<and> length (filter is_bullet_line
                     (split_lines (format_notification_message stamp entries sm)))
          = min 10 (length entries) + (if 10 < length entries then 1 else 0)"
    if "CHR 0x0A \<notin> set stamp"
      and "\<forall>r \<in> set entries. CHR 0x0A \<notin> set (nr_ip r) \<and> CHR 0x0A \<notin> set (nr_service r)"
    using message_bullet_lines [OF that, of sm] by simp
  show ?thesis
    using message_text [of stamp entries sm] lines
          decimal_value_str_nat [of "length entries - 10"]
          str_nat_digits [of "length entries - 10"]
    by blast
qed

theorem notification_message_lists_first_ten_witness:
  "CHR 0x0A \<notin> set stamp_0
   \<and> list_all (\<lambda>r. CHR 0x0A \<notin> set (nr_ip r) \<and> CHR 0x0A \<notin> set (nr_service r)) entries_12
   \<and> format_notification_message stamp_0 entries_12 summary_12 =
       [128269, 32, 42, 1056, 1077, 1079, 1091, 1083, 1100, 1090, 1072, 1090, 1099, 32,
        1089, 1082, 1072, 1085, 1080, 1088, 1086, 1074, 1072, 1085, 1080, 1103, 32, 1087,
        1086, 1088, 1090, 1086, 1074, 42, 10, 10, 9200, 32, 1042, 1088, 1077, 1084, 1103,
        58, 32, 50, 48, 50, 52, 45, 48, 49, 45, 48, 49, 32, 48, 48, 58, 48, 48, 58, 48, 48,
        10, 128202, 32, 1053, 1072, 1081, 1076, 1077, 1085, 1086, 32, 1085, 1086, 1074,
        1099, 1093, 58, 32, 49, 50, 10, 9201, 65039, 32, 1044, 1083, 1080, 1090, 1077,
        1083, 1100, 1085, 1086, 1089, 1090, 1100, 58, 32, 53, 1089, 10, 128200, 32, 1042,
        1089, 1077, 1075, 1086, 32, 1085, 1072, 1081, 1076, 1077, 1085, 1086, 32, 1087,
        1086, 1088, 1090, 1086, 1074, 58, 32, 49, 50, 10, 10, 42, 1053, 1086, 1074, 1099,
        1077, 32, 1086, 1090, 1082, 1088, 1099, 1090, 1099, 1077, 32, 1087, 1086, 1088,
        1090, 1099, 58, 42, 10, 10, 8226, 32, 49, 48, 46, 48, 46, 48, 46, 49, 58, 50, 49,
        32, 45, 32, 83, 83, 72, 10, 8226, 32, 49, 48, 46, 48, 46, 48, 46, 49, 58, 50, 50,
        32, 45, 32, 83, 83, 72, 10, 8226, 32, 49, 48, 46, 48, 46, 48, 46, 49, 58, 50, 51,
        32, 45, 32, 83, 83, 72, 10, 8226, 32, 49, 48, 46, 48, 46, 48, 46, 49, 58, 50, 53,
        32, 45, 32, 83, 83, 72, 10, 8226, 32, 49, 48, 46, 48, 46, 48, 46, 49, 58, 53, 51,
        32, 45, 32, 83, 83, 72, 10, 8226, 32, 49, 48, 46, 48, 46, 48, 46, 49, 58, 56, 48,
        32, 45, 32, 83, 83, 72, 10, 8226, 32, 49, 48, 46, 48, 46, 48, 46, 49, 58, 49, 49,
        48, 32, 45, 32, 83, 83, 72, 10, 8226, 32, 49, 48, 46, 48, 46, 48, 46, 49, 58, 49,
        52, 51, 32, 45, 32, 83, 83, 72, 10, 8226, 32, 49, 48, 46, 48, 46, 48, 46, 49, 58,
        52, 52, 51, 32, 45, 32, 83, 83, 72, 10, 8226, 32, 49, 48, 46, 48, 46, 48, 46, 49,
        58, 52, 54, 53, 32, 45, 32, 83, 83, 72, 10, 8226, 32, 46, 46, 46, 32, 1080, 32,
        1077, 1097, 1105, 32, 50, 10, 10, 9989, 32, 1057, 1082, 1072, 1085, 1080, 1088,
        1086, 1074, 1072, 1085, 1080, 1077, 32, 1079, 1072, 1074, 1077, 1088, 1096, 1077,
        1085, 1086, 32, 1091, 1089, 1087, 1077, 1096, 1085, 1086]
   \<and> filter is_bullet_line (split_lines (format_notification_message stamp_0 entries_12 summary_12)) =
       [[8226, 32, 49, 48, 46, 48, 46, 48, 46, 49, 58, 50, 49, 32, 45, 32, 83, 83, 72],
        [8226, 32, 49, 48, 46, 48, 46, 48, 46, 49, 58, 50, 50, 32, 45, 32, 83, 83, 72],
        [8226, 32, 49, 48, 46, 48, 46, 48, 46, 49, 58, 50, 51, 32, 45, 32, 83, 83, 72],
        [8226, 32, 49, 48, 46, 48, 46, 48, 46, 49, 58, 50, 53, 32, 45, 32, 83, 83, 72],
        [8226, 32, 49, 48, 46, 48, 46, 48, 46, 49, 58, 53, 51, 32, 45, 32, 83, 83, 72],
        [8226, 32, 49, 48, 46, 48, 46, 48, 46, 49, 58, 56, 48, 32, 45, 32, 83, 83, 72],
        [8226, 32, 49, 48, 46, 48, 46, 48, 46, 49, 58, 49, 49, 48, 32, 45, 32, 83, 83, 72],
        [8226, 32, 49, 48, 46, 48, 46, 48, 46, 49, 58, 49, 52, 51, 32, 45, 32, 83, 83, 72],
        [8226, 32, 49, 48, 46, 48, 46, 48, 46, 49, 58, 52, 52, 51, 32, 45, 32, 83, 83, 72],
        [8226, 32, 49, 48, 46, 48, 46, 48, 46, 49, 58, 52, 54, 53, 32, 45, 32, 83, 83, 72],
        [8226, 32, 46, 46, 46, 32, 1080, 32, 1077, 1097, 1105, 32, 50]]
   \<and> decimal_value (str_nat (length entries_12 - 10)) = 2"
proof -
  have h1: "CHR 0x0A \<notin> set stamp_0"
    by (simp add: stamp_0_def)
  have h2: "\<forall>r \<in> set entries_12. CHR 0x0A \<notin> set (nr_ip r) \<and> CHR 0x0A \<notin> set (nr_service r)"
    by (simp add: entries_12_def)
  have h2': "list_all (\<lambda>r. CHR 0x0A \<notin> set (nr_ip r) \<and> CHR 0x0A \<notin> set (nr_service r)) entries_12"
    using h2 by (simp only: list_all_iff)
  note T = notification_message_lists_first_ten [of stamp_0 entries_12 summary_12]
  note T1 = T [THEN conjunct1]
  note T2 = T [THEN conjunct2, THEN conjunct1, THEN mp, OF h1, THEN mp, OF h2, THEN conjunct1]
  note T3 = T [THEN conjunct2, THEN conjunct2, THEN conjunct1]
  have t1: "format_notification_message stamp_0 entries_12 summary_12 =
       [128269, 32, 42, 1056, 1077, 1079, 1091, 1083, 1100, 1090, 1072, 1090, 1099, 32,
        1089, 1082, 1072, 1085, 1080, 1088, 1086, 1074, 1072, 1085, 1080, 1103, 32, 1087,
        1086, 1088, 1090, 1086, 1074, 42, 10, 10, 9200, 32, 1042, 1088, 1077, 1084, 1103,
        58, 32, 50, 48, 50, 52, 45, 48, 49, 45, 48, 49, 32, 48, 48, 58, 48, 48, 58, 48, 48,
        10, 128202, 32, 1053, 1072, 1081, 1076, 1077, 1085, 1086, 32, 1085, 1086, 1074,
        1099, 1093, 58, 32, 49, 50, 10, 9201, 65039, 32, 1044, 1083, 1080, 1090, 1077,
        1083, 1100, 1085, 1086, 1089, 1090, 1100, 58, 32, 53, 1089, 10, 128200, 32, 1042,
        1089, 1077, 1075, 1086, 32, 1085, 1072, 1081, 1076, 1077, 1085, 1086, 32, 1087,
        1086, 1088, 1090, 1086, 1074, 58, 32, 49, 50, 10, 10, 42, 1053, 1086, 1074, 1099,
        1077, 32, 1086, 1090, 1082, 1088, 1099, 1090, 1099, 1077, 32, 1087, 1086, 1088,
        1090, 1099, 58, 42, 10, 10, 8226, 32, 49, 48, 46, 48, 46, 48, 46, 49, 58, 50, 49,
        32, 45, 32, 83, 83, 72, 10, 8226, 32, 49, 48, 46, 48, 46, 48, 46, 49, 58, 50, 50,
        32, 45, 32, 83, 83, 72, 10, 8226, 32, 49, 48, 46, 48, 46, 48, 46, 49, 58, 50, 51,
        32, 45, 32, 83, 83, 72, 10, 8226, 32, 49, 48, 46, 48, 46, 48, 46, 49, 58, 50, 53,
        32, 45, 32, 83, 83, 72, 10, 8226, 32, 49, 48, 46, 48, 46, 48, 46, 49, 58, 53, 51,
        32, 45, 32, 83, 83, 72, 10, 8226, 32, 49, 48, 46, 48, 46, 48, 46, 49, 58, 56, 48,
        32, 45, 32, 83, 83, 72, 10, 8226, 32, 49, 48, 46, 48, 46, 48, 46, 49, 58, 49, 49,
        48, 32, 45, 32, 83, 83, 72, 10, 8226, 32, 49, 48, 46, 48, 46, 48, 46, 49, 58, 49,
        52, 51, 32, 45, 32, 83, 83, 72, 10, 8226, 32, 49, 48, 46, 48, 46, 48, 46, 49, 58,
        52, 52, 51, 32, 45, 32, 83, 83, 72, 10, 8226, 32, 49, 48, 46, 48, 46, 48, 46, 49,
        58, 52, 54, 53, 32, 45, 32, 83, 83, 72, 10, 8226, 32, 46, 46, 46, 32, 1080, 32,
        1077, 1097, 1105, 32, 50, 10, 10, 9989, 32, 1057, 1082, 1072, 1085, 1080, 1088,
        1086, 1074, 1072, 1085, 1080, 1077, 32, 1079, 1072, 1074, 1077, 1088, 1096, 1077,
        1085, 1086, 32, 1091, 1089, 1087, 1077, 1096, 1085, 1086]"
    using T1 by (simp add: stamp_0_def entries_12_def summary_12_def str_defs)
  have t2: "filter is_bullet_line (split_lines (format_notification_message stamp_0 entries_12 summary_12)) =
       [[8226, 32, 49, 48, 46, 48, 46, 48, 46, 49, 58, 50, 49, 32, 45, 32, 83, 83, 72],
        [8226, 32, 49, 48, 46, 48, 46, 48, 46, 49, 58, 50, 50, 32, 45, 32, 83, 83, 72],
        [8226, 32, 49, 48, 46, 48, 46, 48, 46, 49, 58, 50, 51, 32, 45, 32, 83, 83, 72],
        [8226, 32, 49, 48, 46, 48, 46, 48, 46, 49, 58, 50, 53, 32, 45, 32, 83, 83, 72],
        [8226, 32, 49, 48, 46, 48, 46, 48, 46, 49, 58, 53, 51, 32, 45, 32, 83, 83, 72],
        [8226, 32, 49, 48, 46, 48, 46, 48, 46, 49, 58, 56, 48, 32, 45, 32, 83, 83, 72],
        [8226, 32, 49, 48, 46, 48, 46, 48, 46, 49, 58, 49, 49, 48, 32, 45, 32, 83, 83, 72],
        [8226, 32, 49, 48, 46, 48, 46, 48, 46, 49, 58, 49, 52, 51, 32, 45, 32, 83, 83, 72],
        [8226, 32, 49, 48, 46, 48, 46, 48, 46, 49, 58, 52, 52, 51, 32, 45, 32, 83, 83, 72],
        [8226, 32, 49, 48, 46, 48, 46, 48, 46, 49, 58, 52, 54, 53, 32, 45, 32, 83, 83, 72],
        [8226, 32, 46, 46, 46, 32, 1080, 32, 1077, 1097, 1105, 32, 50]]"
    using T2 by (simp add: entries_12_def str_defs)
  have t3: "decimal_value (str_nat (length entries_12 - 10)) = 2"
    using T3 by (simp add: entries_12_def)
  show ?thesis
    using h1 h2' t1 t2 t3 by blast
qed

section \<open>Properties of the banner classifier\<close>

lemmas rx_defs = lower_code_def eq_ignorecase_def is_digit_def in_set_def digits_def sep_def
  slash_version3_def sep_dotted_def sep_dotted_p_def matched_name_def first_line_def
  py_strip_def py_isspace_def u_isspace_def











section \<open>Properties of the scanner\<close>

lemmas scan_defs = run_masscan_def masscan_cmd_def output_path_def parse_masscan_output_def
  scan_async_def get_banners_async_def

lemma run_masscan_no_connection:
  "OpenConnection h p \<notin> set (snd (run_masscan scanner env tgts ports))"
  by (simp add: run_masscan_def Let_def split: process_outcome.split)

text \<open>
  C3. When \<open>_run_masscan\<close> raises an exception \<open>e\<close>, a timeout included, the session
  that \<open>scan_async\<close> returns has status \<open>FAILED\<close>, its error list is \<open>[str(e)]\<close>, its
  end time is the clock reading taken in the handler, its result list is empty, and the
  run has opened no connection: the probing step has not been executed.
\<close>

theorem failed_bulk_scan_skips_probing:
  assumes "fst (run_masscan scanner env tgts ports) = Inl e"
  shows "status (fst (scan_async scanner env tgts ports get_banners)) = FAILED
    \<and> errors (fst (scan_async scanner env tgts ports get_banners)) = [str_error e]
    \<and> end_time (fst (scan_async scanner env tgts ports get_banners)) = Some (clock_end env)
    \<and> results (fst (scan_async scanner env tgts ports get_banners)) = []
    \<and> (\<forall>h p. OpenConnection h p \<notin> set (snd (scan_async scanner env tgts ports get_banners)))"
proof -
  obtain ops where r: "run_masscan scanner env tgts ports = (Inl e, ops)"
    using assms by (cases "run_masscan scanner env tgts ports") auto
  have "\<forall>h p. OpenConnection h p \<notin> set ops"
    using run_masscan_no_connection[of _ _ scanner env tgts ports] r by simp
  then show ?thesis
    by (simp add: scan_async_def r)
qed

theorem failed_bulk_scan_skips_probing_witness:
  "fst (run_masscan scanner_0 world_timeout [''10.0.0.0/24''] [22, 80]) = Inl TimeoutError
   \<and> status (fst (scan_async scanner_0 world_timeout [''10.0.0.0/24''] [22, 80] True)) = FAILED
   \<and> errors (fst (scan_async scanner_0 world_timeout [''10.0.0.0/24''] [22, 80] True)) = [[]]
   \<and> end_time (fst (scan_async scanner_0 world_timeout [''10.0.0.0/24''] [22, 80] True)) = Some 5000000
   \<and> snd (scan_async scanner_0 world_timeout [''10.0.0.0/24''] [22, 80] True)
        = [CreateSubprocess [''masscan'', ''10.0.0.0/24'', ''-p'', ''22,80'', ''--rate'', ''1000'',
                             ''-oJ'', ''/tmp/masscan_output_f1.json'', ''--wait'', ''5''],
           Communicate 300, Unlink ''/tmp/masscan_output_f1.json'']
   \<and> fst (run_masscan scanner_0 world_exit_1 [''10.0.0.0/24''] [22, 80])
        = Inl (RuntimeError ''Masscan failed: FAIL: permission denied'')
   \<and> status (fst (scan_async scanner_0 world_exit_1 [''10.0.0.0/24''] [22, 80] True)) = FAILED
   \<and> errors (fst (scan_async scanner_0 world_exit_1 [''10.0.0.0/24''] [22, 80] True))
        = [''Masscan failed: FAIL: permission denied'']"
proof -
  have t: "fst (run_masscan scanner_0 world_timeout [''10.0.0.0/24''] [22, 80]) = Inl TimeoutError"
    by (simp add: run_masscan_def world_timeout_def world_ok_def)
  have x: "fst (run_masscan scanner_0 world_exit_1 [''10.0.0.0/24''] [22, 80])
        = Inl (RuntimeError ''Masscan failed: FAIL: permission denied'')"
    by (simp add: run_masscan_def world_exit_1_def world_ok_def)
  have ops: "snd (scan_async scanner_0 world_timeout [''10.0.0.0/24''] [22, 80] True)
        = [CreateSubprocess [''masscan'', ''10.0.0.0/24'', ''-p'', ''22,80'', ''--rate'', ''1000'',
                             ''-oJ'', ''/tmp/masscan_output_f1.json'', ''--wait'', ''5''],
           Communicate 300, Unlink ''/tmp/masscan_output_f1.json'']"
    by (simp add: scan_defs world_timeout_def world_ok_def scanner_0_def str_defs)
  show ?thesis
    using failed_bulk_scan_skips_probing [OF t, of True]
          failed_bulk_scan_skips_probing [OF x, of True] t x ops
    by (simp add: world_timeout_def world_exit_1_def world_ok_def)
qed

text \<open>
  C5 as stated fails: when \<open>communicate()\<close> does not finish within the timeout, the call
  fails with the timeout error, and the calls it has issued contain no termination of the
  child process.
\<close>

theorem timeout_without_kill_counterexample:
  "fst (run_masscan scanner_0 world_timeout [''10.0.0.0/24''] [22, 80]) = Inl TimeoutError
   \<and> ProcessKill \<notin> set (snd (run_masscan scanner_0 world_timeout [''10.0.0.0/24''] [22, 80]))"
  by (simp add: run_masscan_def world_timeout_def world_ok_def)

text \<open>
  C5 (amended). When the external process exceeds the timeout, \<open>_run_masscan\<close> fails
  with the timeout error and returns no results; the calls it issues are the start of the
  process, the bounded wait and the removal of the output file, and none of them
  terminates the process. The session of such a run is failed and its result list is
  empty.
\<close>

theorem timeout_fails_without_results:
  assumes "child_process env = TimesOut"
  shows "run_masscan scanner env tgts ports
           = (Inl TimeoutError,
              [CreateSubprocess (masscan_cmd scanner env tgts ports),
               Communicate (timeout scanner), Unlink (output_path env)])
    \<and> status (fst (scan_async scanner env tgts ports get_banners)) = FAILED
    \<and> results (fst (scan_async scanner env tgts ports get_banners)) = []
    \<and> ProcessKill \<notin> set (snd (scan_async scanner env tgts ports get_banners))"
  using assms by (simp add: run_masscan_def scan_async_def)

theorem timeout_fails_without_results_witness:
  "child_process world_timeout = TimesOut
   \<and> run_masscan scanner_0 world_timeout [''10.0.0.0/24''] [22, 80]
       = (Inl TimeoutError,
          [CreateSubprocess [''masscan'', ''10.0.0.0/24'', ''-p'', ''22,80'', ''--rate'', ''1000'',
                             ''-oJ'', ''/tmp/masscan_output_f1.json'', ''--wait'', ''5''],
           Communicate 300, Unlink ''/tmp/masscan_output_f1.json''])
   \<and> results (fst (scan_async scanner_0 world_timeout [''10.0.0.0/24''] [22, 80] True)) = []"
proof -
  have t: "child_process world_timeout = TimesOut"
    by (simp add: world_timeout_def)
  show ?thesis
    using timeout_fails_without_results [OF t, of scanner_0 "[''10.0.0.0/24'']" "[22, 80]" True] t
    by (simp add: masscan_cmd_def output_path_def world_timeout_def world_ok_def scanner_0_def
          str_defs)
qed

lemma gathered_results:
  "List.map_filter (\<lambda>r. case r of Inr result \<Rightarrow> Some result | Inl e \<Rightarrow> None)
       (map (\<lambda>(i, result). get_banner_for_port (prb i) result) (enumerate n rs))
     = map (\<lambda>(i, result). projr (get_banner_for_port (prb i) result)) (enumerate n rs)"
proof (induction rs arbitrary: n)
  case Nil
  show ?case by (simp add: map_filter_simps)
next
  case (Cons r rs)
  obtain r' where "get_banner_for_port (prb n) r = Inr r'"
    by (cases "prb n") auto
  with Cons show ?case by (simp add: map_filter_simps)
qed

lemma get_banners_async_nth:
  assumes "i < length rs"
  shows "fst (get_banners_async prb rs) ! i = projr (get_banner_for_port (prb i) (rs ! i))"
  using assms by (simp add: get_banners_async_def gathered_results nth_enumerate_eq)

lemma get_banners_async_length: "length (fst (get_banners_async prb rs)) = length rs"
  by (simp add: get_banners_async_def gathered_results)

text \<open>
  C4 (amended). The output of the probing step has the length of its input, and its
  \<open>i\<close>-th element is the \<open>i\<close>-th input result with at most its banner and service
  assigned anew: no probe removes a result. A probe that is refused or times out, on
  connecting or on reading, leaves the result as it was, and so does any other failure
  on connecting, sending or reading. A failure that occurs after the reply has been read,
  on closing the connection, returns the result with the banner and the service that the
  reply gave.
\<close>

theorem probing_never_drops_a_result:
  "length (fst (get_banners_async prb rs)) = length rs
   \<and> (\<forall>i < length rs.
         (\<exists>b s. fst (get_banners_async prb rs) ! i = (rs ! i)\<lparr> banner := b, service := s \<rparr>)
       \<and> (prb i \<in> {ConnectTimeout, ConnectRefused, ReadTimeout} \<longrightarrow>
            fst (get_banners_async prb rs) ! i = rs ! i)
       \<and> (\<forall>e. prb i \<in> {ConnectFails e, SendFails e, ReadFails e} \<longrightarrow>
            fst (get_banners_async prb rs) ! i = rs ! i)
       \<and> (\<forall>reply e. prb i = AnswersCloseFails reply e \<longrightarrow>
            fst (get_banners_async prb rs) ! i
              = (rs ! i)\<lparr> banner := Some (take 200 reply),
                          service := Some (analyze (take 200 reply)) \<rparr>))"
proof (intro conjI allI impI)
  show "length (fst (get_banners_async prb rs)) = length rs"
    by (rule get_banners_async_length)
next
  fix i assume i: "i < length rs"
  have same: "rs ! i = (rs ! i)\<lparr> banner := banner (rs ! i), service := service (rs ! i) \<rparr>"
    by simp
  have "\<exists>b s. projr (get_banner_for_port (prb i) (rs ! i)) = (rs ! i)\<lparr> banner := b, service := s \<rparr>"
  proof (cases "prb i")
    case (Answers reply)
    then show ?thesis by auto
  next
    case (AnswersCloseFails reply e)
    then show ?thesis by auto
  next
    case ConnectTimeout
    then show ?thesis using same by (metis get_banner_for_port.simps(3) sum.sel(2))
  next
    case ConnectRefused
    then show ?thesis using same by (metis get_banner_for_port.simps(4) sum.sel(2))
  next
    case (ConnectFails e)
    then show ?thesis using same by (metis get_banner_for_port.simps(5) sum.sel(2))
  next
    case (SendFails e)
    then show ?thesis using same by (metis get_banner_for_port.simps(6) sum.sel(2))
  next
    case ReadTimeout
    then show ?thesis using same by (metis get_banner_for_port.simps(7) sum.sel(2))
  next
    case (ReadFails e)
    then show ?thesis using same by (metis get_banner_for_port.simps(8) sum.sel(2))
  qed
  then show "\<exists>b s. fst (get_banners_async prb rs) ! i = (rs ! i)\<lparr> banner := b, service := s \<rparr>"
    by (simp add: get_banners_async_nth[OF i])
next
  fix i assume "i < length rs" "prb i \<in> {ConnectTimeout, ConnectRefused, ReadTimeout}"
  then show "fst (get_banners_async prb rs) ! i = rs ! i"
    by (auto simp: get_banners_async_nth)
next
  fix i e assume "i < length rs" "prb i \<in> {ConnectFails e, SendFails e, ReadFails e}"
  then show "fst (get_banners_async prb rs) ! i = rs ! i"
    by (auto simp: get_banners_async_nth)
next
  fix i reply e assume "i < length rs" "prb i = AnswersCloseFails reply e"
  then show "fst (get_banners_async prb rs) ! i
              = (rs ! i)\<lparr> banner := Some (take 200 reply),
                          service := Some (analyze (take 200 reply)) \<rparr>"
    by (simp add: get_banners_async_nth)
qed

lemma analyze_openssh: "analyze ''SSH-2.0-OpenSSH_8.2'' = ''OpenSSH 8.2''"
  by (simp add: analyze_def PATTERNS_def rx_defs)

theorem probing_never_drops_a_result_witness:
  "length (fst (get_banners_async
          (\<lambda>i. if i = 0 then ConnectRefused
                else if i = 1 then ReadFails (OSError ''connection reset'')
                else AnswersCloseFails ''SSH-2.0-OpenSSH_8.2'' (OSError ''connection reset''))
          [found_22, host_80, found_22])) = 3
   \<and> fst (get_banners_async
          (\<lambda>i. if i = 0 then ConnectRefused
                else if i = 1 then ReadFails (OSError ''connection reset'')
                else AnswersCloseFails ''SSH-2.0-OpenSSH_8.2'' (OSError ''connection reset''))
          [found_22, host_80, found_22]) ! 0 = found_22
   \<and> fst (get_banners_async
          (\<lambda>i. if i = 0 then ConnectRefused
                else if i = 1 then ReadFails (OSError ''connection reset'')
                else AnswersCloseFails ''SSH-2.0-OpenSSH_8.2'' (OSError ''connection reset''))
          [found_22, host_80, found_22]) ! 1 = host_80
   \<and> fst (get_banners_async
          (\<lambda>i. if i = 0 then ConnectRefused
                else if i = 1 then ReadFails (OSError ''connection reset'')
                else AnswersCloseFails ''SSH-2.0-OpenSSH_8.2'' (OSError ''connection reset''))
          [found_22, host_80, found_22]) ! 2
       = found_22\<lparr> banner := Some ''SSH-2.0-OpenSSH_8.2'', service := Some ''OpenSSH 8.2'' \<rparr>"
proof -
  let ?prb = "\<lambda>i::nat. if i = 0 then ConnectRefused
                else if i = 1 then ReadFails (OSError ''connection reset'')
                else AnswersCloseFails ''SSH-2.0-OpenSSH_8.2'' (OSError ''connection reset'')"
  let ?rs = "[found_22, host_80, found_22]"
  let ?out = "fst (get_banners_async ?prb ?rs)"
  note T = probing_never_drops_a_result [of ?prb ?rs]
  have len: "length ?out = 3" using T by simp
  have o0: "?out ! 0 = found_22"
    using T by (auto simp: nth_Cons')
  have o1: "?out ! 1 = host_80"
    using T by (auto simp: nth_Cons')
  have o2: "?out ! 2 = found_22\<lparr> banner := Some (take 200 ''SSH-2.0-OpenSSH_8.2''),
                                 service := Some (analyze (take 200 ''SSH-2.0-OpenSSH_8.2'')) \<rparr>"
    using T by (auto simp: nth_Cons')
  show ?thesis
    using len o0 o1 o2 by (simp add: analyze_openssh)
qed

text \<open>
  C4 as stated fails: when closing the connection raises after the reply
  \<open>SSH-2.0-OpenSSH_8.2\<close> has been read, the result comes back with a banner and a
  new service name, not unchanged.
\<close>

theorem probing_close_failure_counterexample:
  "fst (get_banners_async (\<lambda>i. AnswersCloseFails ''SSH-2.0-OpenSSH_8.2'' (OSError ''connection reset''))
          [found_22])
     = [found_22\<lparr> banner := Some ''SSH-2.0-OpenSSH_8.2'', service := Some ''OpenSSH 8.2'' \<rparr>]
   \<and> found_22\<lparr> banner := Some ''SSH-2.0-OpenSSH_8.2'', service := Some ''OpenSSH 8.2'' \<rparr> \<noteq> found_22"
  by (simp add: get_banners_async_def map_filter_simps enumerate_eq_zip analyze_openssh found_22_def)

section \<open>Properties of a run\<close>

lemma save_scan_session_fields:
  assumes "save_scan_session env st s = Inr (ok, st', s')"
  shows "new_results s' = new_results s \<and> status s' = status s"
proof (cases st)
  case (SQLiteStorage db)
  with assms show ?thesis
    by (auto simp: sqlite_save_scan_session_def split: option.splits if_splits sum.splits prod.splits)
next
  case (JSONStorage doc)
  with assms show ?thesis
    by (auto simp: json_save_scan_session_def Let_def split: prod.splits)
qed

text \<open>
  C8. When the session a run ends with is completed and its new-results count is zero,
  \<open>notify_all\<close> has not been called and no channel's \<open>send\<close> has been called.
\<close>

theorem no_new_results_no_fan_out:
  assumes "status (session_after (run_scan app env)) = COMPLETED"
    and "new_results (session_after (run_scan app env)) = 0"
  shows "notify_calls (run_scan app env) = [] \<and> send_log (run_scan app env) = []"
proof -
  obtain session ops where sc:
    "scan_async (app_scanner app) (scan_world env) (config_targets app) (config_ports app) True
       = (session, ops)"
    by (cases "scan_async (app_scanner app) (scan_world env) (config_targets app) (config_ports app) True")
  show ?thesis
  proof (cases "status session = FAILED")
    case True
    then show ?thesis by (simp add: run_scan_def sc)
  next
    case nf: False
    show ?thesis
    proof (cases "save_scan_session (first_save env) (app_storage app) session")
      case (Inl e)
      with nf show ?thesis by (simp add: run_scan_def sc)
    next
      case (Inr r1)
      obtain ok1 storage1 session1 where r1: "r1 = (ok1, storage1, session1)"
        by (cases r1) auto
      let ?news = "filter is_new (results session1)"
      let ?session2 = "session1\<lparr> new_results := int (length ?news),
                                  total_results := int (length (results session1)) \<rparr>"
      show ?thesis
      proof (cases "save_scan_session (second_save env) storage1 ?session2")
        case (Inl e)
        with nf Inr r1 show ?thesis by (simp add: run_scan_def sc Let_def)
      next
        case i2: (Inr r2)
        obtain ok2 storage2 session3 where r2: "r2 = (ok2, storage2, session3)"
          by (cases r2) auto
        have f: "new_results session3 = int (length ?news)"
          using save_scan_session_fields[OF i2[unfolded r2]] by simp
        show ?thesis
        proof (cases "?news = []")
          case True
          with nf Inr r1 i2 r2 show ?thesis by (simp add: run_scan_def sc Let_def)
        next
          case False
          then have "session_after (run_scan app env) = session3"
            using nf Inr r1 i2 r2 by (simp add: run_scan_def sc Let_def)
          with assms(2) f False show ?thesis by simp
        qed
      qed
    qed
  qed
qed

lemma scan_world_ok:
  "fst (scan_async scanner_0 world_ok [''10.0.0.0/24''] [22, 80] True)
     = \<lparr> session_id = ''s1'', status = COMPLETED, start_time = 0, end_time = Some 5000000,
         targets = [''10.0.0.0/24''], results = [found_22], total_results = 1,
         new_results = 0, errors = [] \<rparr>"
  by (simp add: scan_defs world_ok_def scanner_0_def found_22_def get_service_name_def
        service_keywords_def COMMON_SERVICES_def map_filter_simps enumerate_eq_zip)

theorem no_new_results_no_fan_out_witness:
  "status (session_after (run_scan app_A run_env_ok)) = COMPLETED
   \<and> new_results (session_after (run_scan app_A run_env_ok)) = 0
   \<and> map is_new (results (session_after (run_scan app_A run_env_ok))) = [False]
   \<and> notify_calls (run_scan app_A run_env_ok) = []
   \<and> send_log (run_scan app_A run_env_ok) = []"
proof -
  have s: "session_after (run_scan app_A run_env_ok)
     = \<lparr> session_id = ''s1'', status = COMPLETED, start_time = 0, end_time = Some 5000000,
         targets = [''10.0.0.0/24''], results = [found_22\<lparr>is_new := False\<rparr>], total_results = 1,
         new_results = 0, errors = [] \<rparr>"
    using scan_world_ok
    by (cases "scan_async scanner_0 world_ok [''10.0.0.0/24''] [22, 80] True")
       (simp add: run_scan_def app_A_def run_env_ok_def store_ok_def fixture_defs sqlite_defs
          found_22_def Let_def)
  show ?thesis
    using no_new_results_no_fan_out [of app_A run_env_ok] s by simp
qed

end
